theory Spec2Isabelle
  imports Complex_Main
begin

unbundle bit_operations_syntax

section \<open>Strings and digests: \<open>ingestion/utils.py\<close>\<close>

text \<open>
  A Python \<open>str\<close> is represented by the list of its UTF-8 bytes, so that
  \<open>s.encode("utf-8")\<close> is the identity on the representation and \<open>+\<close> on strings is
  \<open>@\<close>.  \<open>hashlib.sha1\<close> is the SHA-1 function of FIPS 180-4 on 32-bit words; a word is
  an \<open>int\<close> in the range \<open>0 .. 2^32 - 1\<close> and every operation that can leave the range has
  the wrap-around written out.
\<close>

type_synonym u32 = int

definition add32 :: "u32 \<Rightarrow> u32 \<Rightarrow> u32" where
  "add32 a b = (a + b) mod 4294967296"

definition not32 :: "u32 \<Rightarrow> u32" where
  "not32 a = 4294967295 - a mod 4294967296"

definition rotl32 :: "nat \<Rightarrow> u32 \<Rightarrow> u32" where
  "rotl32 n w = (w * 2 ^ n) mod 4294967296 + w div 2 ^ (32 - n)"

definition be64 :: "int \<Rightarrow> int list" where
  "be64 n = map (\<lambda>i. (n div 256 ^ (7 - i)) mod 256) [0..<8]"

definition sha1_pad :: "string \<Rightarrow> int list" where
  "sha1_pad m =
     (let l = length m
      in map of_char m @ [128] @ replicate ((119 - l mod 64) mod 64) 0 @ be64 (8 * int l))"

fun be_words :: "int list \<Rightarrow> u32 list" where
  "be_words (a # b # c # d # bs) = (((a * 256 + b) * 256 + c) * 256 + d) # be_words bs"
| "be_words _ = []"

fun sha1_blocks :: "u32 list \<Rightarrow> u32 list list" where
  "sha1_blocks [] = []"
| "sha1_blocks (w # ws) = take 16 (w # ws) # sha1_blocks (drop 16 (w # ws))"

text \<open>The message schedule, most recent word first: \<open>W\<^sub>t = ROTL\<^sup>1(W\<^sub>t\<^sub>-\<^sub>3 \<oplus> W\<^sub>t\<^sub>-\<^sub>8 \<oplus> W\<^sub>t\<^sub>-\<^sub>1\<^sub>4 \<oplus> W\<^sub>t\<^sub>-\<^sub>1\<^sub>6)\<close>.\<close>

fun sha1_extend :: "nat \<Rightarrow> u32 list \<Rightarrow> u32 list" where
  "sha1_extend 0 rs = rs"
| "sha1_extend (Suc n) rs =
     sha1_extend n (rotl32 1 (rs ! 2 XOR rs ! 7 XOR rs ! 13 XOR rs ! 15) # rs)"

definition sha1_schedule :: "u32 list \<Rightarrow> u32 list" where
  "sha1_schedule block = rev (sha1_extend 64 (rev block))"

type_synonym sha1_state = "u32 \<times> u32 \<times> u32 \<times> u32 \<times> u32"

definition sha1_f :: "nat \<Rightarrow> u32 \<Rightarrow> u32 \<Rightarrow> u32 \<Rightarrow> u32" where
  "sha1_f t b c d =
     (if t < 20 then (b AND c) OR (not32 b AND d)
      else if t < 40 then b XOR c XOR d
      else if t < 60 then (b AND c) OR (b AND d) OR (c AND d)
      else b XOR c XOR d)"

definition sha1_k :: "nat \<Rightarrow> u32" where
  "sha1_k t =
     (if t < 20 then 0x5A827999
      else if t < 40 then 0x6ED9EBA1
      else if t < 60 then 0x8F1BBCDC
      else 0xCA62C1D6)"

fun sha1_round :: "sha1_state \<Rightarrow> nat \<times> u32 \<Rightarrow> sha1_state" where
  "sha1_round (a, b, c, d, e) (t, w) =
     (add32 (add32 (add32 (add32 (rotl32 5 a) (sha1_f t b c d)) e) (sha1_k t)) w,
      a, rotl32 30 b, c, d)"

fun sha1_compress :: "sha1_state \<Rightarrow> u32 list \<Rightarrow> sha1_state" where
  "sha1_compress (h0, h1, h2, h3, h4) block =
     (case foldl sha1_round (h0, h1, h2, h3, h4) (enumerate 0 (sha1_schedule block)) of
        (a, b, c, d, e) \<Rightarrow> (add32 h0 a, add32 h1 b, add32 h2 c, add32 h3 d, add32 h4 e))"

definition sha1_init :: sha1_state where
  "sha1_init = (0x67452301, 0xEFCDAB89, 0x98BADCFE, 0x10325476, 0xC3D2E1F0)"

definition sha1 :: "string \<Rightarrow> sha1_state" where
  "sha1 m = foldl sha1_compress sha1_init (sha1_blocks (be_words (sha1_pad m)))"

definition hex_chars :: string where
  "hex_chars = ''0123456789abcdef''"

definition hex_digit :: "int \<Rightarrow> char" where
  "hex_digit n = hex_chars ! nat (n mod 16)"

definition hex_u32 :: "u32 \<Rightarrow> string" where
  "hex_u32 w = map (\<lambda>i. hex_digit (w div 16 ^ (7 - i))) [0..<8]"

text \<open>\<open>hashlib.sha1(seed).hexdigest()\<close>: forty lower-case hexadecimal characters.\<close>

fun sha1_hexdigest :: "string \<Rightarrow> string" where
  "sha1_hexdigest m =
     (case sha1 m of (h0, h1, h2, h3, h4) \<Rightarrow>
        hex_u32 h0 @ hex_u32 h1 @ hex_u32 h2 @ hex_u32 h3 @ hex_u32 h4)"

text \<open>
  \<open>synthetic_email(name, domain="example.com")\<close> computes the seed
  \<open>(name or "unknown").encode("utf-8")\<close>, takes \<open>h = hashlib.sha1(seed).hexdigest()[:10]\<close>
  and returns the formatted string made of \<open>user_\<close>, \<open>h\<close>, an at sign and \<open>domain\<close>.
  \<open>name or "unknown"\<close> takes the placeholder for every falsy name: \<open>None\<close> and the
  empty string.  The \<open>domain\<close> argument is an option: \<open>None\<close> is the call that leaves the
  argument out and so gets the default.
\<close>

definition name_or_unknown :: "string option \<Rightarrow> string" where
  "name_or_unknown name =
     (case name of None \<Rightarrow> ''unknown'' | Some n \<Rightarrow> if n = [] then ''unknown'' else n)"

definition domain_or_default :: "string option \<Rightarrow> string" where
  "domain_or_default domain = (case domain of None \<Rightarrow> ''example.com'' | Some d \<Rightarrow> d)"

definition synthetic_email :: "string option \<Rightarrow> string option \<Rightarrow> string" where
  "synthetic_email name domain =
     (let seed = name_or_unknown name;
          h = take 10 (sha1_hexdigest seed)
      in ''user_'' @ h @ ''@'' @ domain_or_default domain)"

definition is_hex :: "string \<Rightarrow> bool" where
  "is_hex s = list_all (\<lambda>c. c \<in> set hex_chars) s"

section \<open>Exceptions and library calls\<close>

text \<open>
  Every exception the modelled code can raise is a value.  \<open>ValueError\<close>,
  \<open>BadParameter\<close> and \<open>OverflowError\<close> carry the message of the exception;
  \<open>HTTPError\<close> carries the status code \<open>raise_for_status\<close> refuses;
  \<open>RequestException\<close> stands for the failures of \<open>session.get\<close> itself (connection,
  timeout), \<open>JSONDecodeError\<close> for a body \<open>resp.json()\<close> cannot decode,
  \<open>ValidationError\<close> for \<open>OpenAlexWork.model_validate\<close> and \<open>ClientError\<close> for the
  delivery stream's client.
\<close>

datatype exn =
    ValueError string
  | OverflowError string
  | BadParameter string
  | HTTPError int
  | RequestException string
  | JSONDecodeError
  | ValidationError string
  | ClientError string

text \<open>
  \<open>int(s)\<close> on a string, base 10.  A header value is the Latin-1 decoding of the bytes
  received, one character per byte.  The interpreter skips white space on both sides
  (the characters 9 to 13, 32, 133 and 160), accepts one sign, and then wants digits,
  where a single underscore may stand between two digits.  A literal of more than 4300
  digits is refused.
\<close>

definition int_space :: "char \<Rightarrow> bool" where
  "int_space c = ((of_char c :: nat) \<in> {9, 10, 11, 12, 13, 32, 133, 160})"

definition is_digit :: "char \<Rightarrow> bool" where
  "is_digit c = (48 \<le> (of_char c :: nat) \<and> (of_char c :: nat) \<le> 57)"

definition digit_value :: "char \<Rightarrow> int" where
  "digit_value c = int (of_char c) - 48"

definition strip_int :: "string \<Rightarrow> string" where
  "strip_int s = rev (dropWhile int_space (rev (dropWhile int_space s)))"

fun parse_digits :: "int \<Rightarrow> string \<Rightarrow> int option" where
  "parse_digits acc [] = Some acc"
| "parse_digits acc [c] = (if is_digit c then Some (10 * acc + digit_value c) else None)"
| "parse_digits acc (c # d # cs) =
     (if is_digit c then parse_digits (10 * acc + digit_value c) (d # cs)
      else if c = CHR ''_'' \<and> is_digit d then parse_digits (10 * acc + digit_value d) cs
      else None)"

definition parse_unsigned :: "string \<Rightarrow> int option" where
  "parse_unsigned s =
     (case s of
        [] \<Rightarrow> None
      | c # cs \<Rightarrow> if is_digit c then parse_digits (digit_value c) cs else None)"

definition parse_int_literal :: "string \<Rightarrow> int option" where
  "parse_int_literal s =
     (case strip_int s of
        [] \<Rightarrow> None
      | c # cs \<Rightarrow>
          if c = CHR ''-'' then map_option uminus (parse_unsigned cs)
          else if c = CHR ''+'' then parse_unsigned cs
          else parse_unsigned (c # cs))"

definition max_str_digits :: nat where
  "max_str_digits = 4300"

definition py_int :: "string \<Rightarrow> exn + int" where
  "py_int s =
     (case parse_int_literal s of
        None \<Rightarrow> Inl (ValueError ''invalid literal for int() with base 10'')
      | Some n \<Rightarrow>
          if max_str_digits < length (filter is_digit s)
          then Inl (ValueError ''Exceeds the limit (4300 digits) for integer string conversion'')
          else Inr n)"

text \<open>
  \<open>time.sleep(d)\<close>: a negative duration raises \<open>ValueError\<close>, and one that does not fit
  the interpreter's 64-bit count of nanoseconds raises \<open>OverflowError\<close>.  A float is
  modelled by the real number it denotes (no NaN, no infinity).  What the operating
  system does with a duration close to that limit is left out.
\<close>

definition py_sleep :: "real \<Rightarrow> exn + unit" where
  "py_sleep d =
     (if d < 0 then Inl (ValueError ''sleep length must be non-negative'')
      else if 9223372036 < d then Inl (OverflowError ''timestamp too large to convert to C _PyTime_t'')
      else Inr ())"

section \<open>The paginated fetcher: \<open>ingestion/openalex_client.py\<close>\<close>

text \<open>
  The query parameters are a Python \<open>dict\<close>: an association list in insertion order,
  where assigning to a key that is present replaces its value in place.
\<close>

datatype pvalue = PInt int | PStr string

type_synonym params = "(string \<times> pvalue) list"

fun dict_set :: "string \<Rightarrow> pvalue \<Rightarrow> params \<Rightarrow> params" where
  "dict_set k v [] = [(k, v)]"
| "dict_set k v ((k', v') # d) =
     (if k = k' then (k, v) # d else (k', v') # dict_set k v d)"

definition dict_update :: "params \<Rightarrow> params \<Rightarrow> params" where
  "dict_update d other = foldl (\<lambda>acc (k, v). dict_set k v acc) d other"

text \<open>
  A response of the upstream API.  \<open>body\<close> is what \<open>resp.json()\<close> gives: the decoded
  payload or the decoder's exception.  In a payload, \<open>results = None\<close> is a missing
  \<open>results\<close> key and \<open>meta = None\<close> a missing \<open>meta\<close> key; \<open>next_cursor = None\<close> is a
  missing or null token.  The payload is typed as the API documents it: \<open>results\<close> an
  array, \<open>meta\<close> an object, \<open>next_cursor\<close> a string or null.
\<close>

record meta =
  next_cursor :: "string option"

record 'raw payload =
  results :: "'raw list option"
  meta :: "meta option"

record 'raw response =
  status_code :: int
  headers :: "string \<Rightarrow> string option"
  body :: "exn + 'raw payload"

text \<open>What \<open>session.get\<close> does: it raises, or it returns a response.\<close>

type_synonym 'raw reply = "exn + 'raw response"

text \<open>
  The generator's effects, in order: a request with its URL and parameters, a call of
  \<open>sleep\<close>, an item handed to the consumer.
\<close>

datatype 'raw event = Get string params | Sleep real | Yield 'raw

text \<open>
  How a run of the generator over a finite list of replies ends: the loop was left
  (\<open>Done\<close>), an exception left the generator (\<open>Raised\<close>), or the replies are used up
  and the generator is waiting for the next one (\<open>Pending\<close>).
\<close>

datatype status = Done | Raised exn | Pending

type_synonym 'raw trace = "'raw event list \<times> status"

definition emit :: "'raw event list \<Rightarrow> 'raw trace \<Rightarrow> 'raw trace" where
  "emit es t = (es @ fst t, snd t)"

text \<open>\<open>resp.raise_for_status()\<close>: client and server errors raise.\<close>

definition raise_for_status :: "'raw response \<Rightarrow> exn + unit" where
  "raise_for_status resp =
     (if 400 \<le> status_code resp \<and> status_code resp < 600
      then Inl (HTTPError (status_code resp)) else Inr ())"

definition retry_after :: "'raw response \<Rightarrow> exn + int" where
  "retry_after resp =
     py_int (case headers resp ''Retry-After'' of None \<Rightarrow> ''2'' | Some v \<Rightarrow> v)"

definition page_results :: "'raw payload \<Rightarrow> 'raw list" where
  "page_results p = (case results p of None \<Rightarrow> [] | Some rs \<Rightarrow> rs)"

definition page_next_cursor :: "'raw payload \<Rightarrow> string option" where
  "page_next_cursor p = (case meta p of None \<Rightarrow> None | Some m \<Rightarrow> next_cursor m)"

text \<open>Truth values of Python: \<open>None\<close>, the empty string and zero are false.\<close>

definition truthy_str :: "string option \<Rightarrow> bool" where
  "truthy_str s = (case s of None \<Rightarrow> False | Some v \<Rightarrow> v \<noteq> [])"

definition truthy_int :: "int option \<Rightarrow> bool" where
  "truthy_int n = (case n of None \<Rightarrow> False | Some v \<Rightarrow> v \<noteq> 0)"

text \<open>
  One pass through the body of the \<open>while True\<close> loop of \<open>works_stream\<close>, on the
  reply \<open>session.get\<close> gives.  The arguments are the loop's variables: \<open>url\<close>,
  \<open>max_pages\<close>, \<open>sleep_seconds\<close>, \<open>params\<close> and \<open>page_count\<close>.  The pass ends in
  \<open>break\<close>, in an exception, or at the loop's head again (after \<open>continue\<close> or at the
  end of the body) with the new \<open>params\<close> and \<open>page_count\<close>; each outcome carries the
  effects of the pass.
\<close>

datatype 'raw step =
    Break "'raw event list"
  | Raise "'raw event list" exn
  | Again "'raw event list" params int

definition works_iter ::
  "string \<Rightarrow> int option \<Rightarrow> real \<Rightarrow> params \<Rightarrow> int \<Rightarrow> 'raw reply \<Rightarrow> 'raw step" where
  "works_iter url max_pages sleep_seconds params page_count reply =
     (case reply of
        Inl e \<Rightarrow> Raise [Get url params] e
      | Inr resp \<Rightarrow>
          if status_code resp = 429 then
            (case retry_after resp of
               Inl e \<Rightarrow> Raise [Get url params] e
             | Inr secs \<Rightarrow>
                 (case py_sleep (of_int secs) of
                    Inl e \<Rightarrow> Raise [Get url params] e
                  | Inr _ \<Rightarrow> Again [Get url params, Sleep (of_int secs)] params page_count))
          else
            (case raise_for_status resp of
               Inl e \<Rightarrow> Raise [Get url params] e
             | Inr _ \<Rightarrow>
                 (case body resp of
                    Inl e \<Rightarrow> Raise [Get url params] e
                  | Inr p \<Rightarrow>
                      (let items = Get url params # map Yield (page_results p);
                           next_cursor = page_next_cursor p
                       in if \<not> truthy_str next_cursor then Break items
                          else
                            (let params' = dict_set ''cursor'' (PStr (the next_cursor)) params;
                                 page_count' = page_count + 1
                             in if truthy_int max_pages \<and> the max_pages \<le> page_count'
                                then Break items
                                else if sleep_seconds \<noteq> 0 then
                                  (case py_sleep sleep_seconds of
                                     Inl e \<Rightarrow> Raise items e
                                   | Inr _ \<Rightarrow>
                                       Again (items @ [Sleep sleep_seconds]) params' page_count')
                                else Again items params' page_count')))))"

fun works_loop ::
  "string \<Rightarrow> int option \<Rightarrow> real \<Rightarrow> params \<Rightarrow> int \<Rightarrow> 'raw reply list \<Rightarrow> 'raw trace" where
  "works_loop url max_pages sleep_seconds params page_count [] = ([], Pending)"
| "works_loop url max_pages sleep_seconds params page_count (r # rs) =
     (case works_iter url max_pages sleep_seconds params page_count r of
        Break es \<Rightarrow> (es, Done)
      | Raise es e \<Rightarrow> (es, Raised e)
      | Again es params' page_count' \<Rightarrow>
          emit es (works_loop url max_pages sleep_seconds params' page_count' rs))"

text \<open>
  The client.  \<open>__init__\<close> refuses an empty contact address and strips the trailing
  slashes of the base URL.
\<close>

record client =
  base_url :: string
  mailto :: string

definition rstrip_slash :: "string \<Rightarrow> string" where
  "rstrip_slash s = rev (dropWhile (\<lambda>c. c = CHR ''/'') (rev s))"

definition new_client :: "string \<Rightarrow> string \<Rightarrow> exn + client" where
  "new_client b m =
     (if m = [] then
        Inl (ValueError ''OpenAlex requires a contact email (mailto). Set OPENALEX_EMAIL.'')
      else Inr \<lparr>base_url = rstrip_slash b, mailto = m\<rparr>)"

definition initial_params :: "client \<Rightarrow> int \<Rightarrow> string option \<Rightarrow> params option \<Rightarrow> params" where
  "initial_params c per_page updated_since query_params =
     (let p0 = [(''per_page'', PInt per_page), (''mailto'', PStr (mailto c)),
                (''cursor'', PStr ''*'')];
          p1 = (if truthy_str updated_since
                then dict_set ''from_updated_date'' (PStr (the updated_since)) p0 else p0)
      in case query_params of
           None \<Rightarrow> p1
         | Some q \<Rightarrow> if q = [] then p1 else dict_update p1 q)"

text \<open>
  \<open>works_stream\<close> over the replies the session gives, in order.  The arguments after
  the client are \<open>per_page\<close>, \<open>updated_since\<close>, \<open>max_pages\<close>, \<open>sleep_seconds\<close> and
  \<open>query_params\<close>.
\<close>

definition works_stream ::
  "client \<Rightarrow> int \<Rightarrow> string option \<Rightarrow> int option \<Rightarrow> real \<Rightarrow> params option
     \<Rightarrow> 'raw reply list \<Rightarrow> 'raw trace" where
  "works_stream c per_page updated_since max_pages sleep_seconds query_params rs =
     works_loop (base_url c @ ''/works'') max_pages sleep_seconds
       (initial_params c per_page updated_since query_params) 0 rs"

text \<open>The items a trace hands to the consumer, in order.\<close>

fun yielded :: "'raw event list \<Rightarrow> 'raw list" where
  "yielded [] = []"
| "yielded (Yield x # es) = x # yielded es"
| "yielded (_ # es) = yielded es"


definition page_of :: "'raw reply \<Rightarrow> 'raw payload option" where
  "page_of r =
     (case r of
        Inl _ \<Rightarrow> None
      | Inr resp \<Rightarrow>
          if status_code resp = 429 then None
          else (case raise_for_status resp of
                  Inl _ \<Rightarrow> None
                | Inr _ \<Rightarrow> (case body resp of Inl _ \<Rightarrow> None | Inr p \<Rightarrow> Some p)))"

definition more_pages :: "'raw reply \<Rightarrow> bool" where
  "more_pages r =
     (case page_of r of None \<Rightarrow> False | Some p \<Rightarrow> truthy_str (page_next_cursor p))"

text \<open>
  Sample replies, those of the repository's unit test of the client: a 429 whose hint is
  zero seconds, a first page with the cursor \<open>abc\<close> and a last page with a null cursor;
  and four more 429 responses: one whose hint is an HTTP date, one whose hint is seven
  seconds, one without the header and one whose hint is a negative number.  Raw items
  are numbers here.
\<close>

definition sample_client :: client where
  "sample_client = \<lparr>base_url = ''https://api.openalex.org'', mailto = ''me@example.com''\<rparr>"

definition sample_429 :: "nat response" where
  "sample_429 =
     \<lparr>status_code = 429, headers = [''Retry-After'' \<mapsto> ''0''], body = Inl JSONDecodeError\<rparr>"

definition sample_429_date :: "nat response" where
  "sample_429_date =
     \<lparr>status_code = 429, headers = [''Retry-After'' \<mapsto> ''Wed, 21 Oct 2015 07:28:00 GMT''],
      body = Inl JSONDecodeError\<rparr>"




definition sample_page1 :: "nat response" where
  "sample_page1 =
     \<lparr>status_code = 200, headers = Map.empty,
      body = Inr \<lparr>results = Some [1, 2], meta = Some \<lparr>next_cursor = Some ''abc''\<rparr>\<rparr>\<rparr>"

definition sample_page2 :: "nat response" where
  "sample_page2 =
     \<lparr>status_code = 200, headers = Map.empty,
      body = Inr \<lparr>results = Some [3], meta = Some \<lparr>next_cursor = None\<rparr>\<rparr>\<rparr>"

definition sample_params :: params where
  "sample_params =
     [(''per_page'', PInt 2), (''mailto'', PStr ''me@example.com''), (''cursor'', PStr ''*'')]"

section \<open>The canonical envelope: \<open>ingestion/schema.py\<close>\<close>

text \<open>
  The pydantic models as records.  A field of the source that two models share, or
  whose name is taken in HOL, carries a suffix: \<open>_v\<close> for \<open>HostVenue\<close>, \<open>_a\<close> for
  \<open>AuthorRef\<close>, \<open>_w\<close> for \<open>OpenAlexWork\<close> and \<open>_e\<close> for \<open>Envelope\<close>.  A \<open>datetime\<close> is
  represented by its ISO 8601 rendering, which is what the JSON mode of \<open>model_dump\<close>
  writes.
\<close>

type_synonym datetime = string

record HostVenue =
  display_name_v :: "string option"

record AuthorRef =
  display_name_a :: "string option"

record Authorship =
  author :: "AuthorRef option"

record OpenAlexWork =
  id_w :: "string option"
  doi_w :: "string option"
  title_w :: "string option"
  publication_year_w :: "int option"
  host_venue_w :: "HostVenue option"
  authorships :: "Authorship list option"
  email_w :: "string option"
  event_ts_w :: "datetime option"

record Envelope =
  id_e :: "string option"
  doi_e :: "string option"
  title_e :: "string option"
  publication_year_e :: "int option"
  host_venue_e :: "string option"
  primary_author :: "string option"
  email_e :: "string option"
  event_ts_e :: datetime
  ingest_ts :: datetime
  source_e :: string
  load_id :: string

text \<open>
  The name of the first author: \<open>w.authorships[0].author.display_name\<close> when the list
  of authorships is there and not empty and its first entry has an author.
\<close>

definition first_author_name :: "OpenAlexWork \<Rightarrow> string option" where
  "first_author_name w =
     (case authorships w of
        None \<Rightarrow> None
      | Some [] \<Rightarrow> None
      | Some (a # _) \<Rightarrow> (case author a of None \<Rightarrow> None | Some r \<Rightarrow> display_name_a r))"

text \<open>
  \<open>Envelope.from_openalex\<close>.  The last argument is the value the default factory of
  \<open>load_id\<close> draws (\<open>str(uuid.uuid4())\<close>).
\<close>

definition from_openalex ::
  "OpenAlexWork \<Rightarrow> datetime \<Rightarrow> datetime \<Rightarrow> string option \<Rightarrow> string \<Rightarrow> string \<Rightarrow> Envelope" where
  "from_openalex w event_ts ingest email source fresh_id =
     \<lparr>id_e = id_w w,
      doi_e = doi_w w,
      title_e = title_w w,
      publication_year_e = publication_year_w w,
      host_venue_e = (case host_venue_w w of None \<Rightarrow> None | Some hv \<Rightarrow> display_name_v hv),
      primary_author = first_author_name w,
      email_e = email,
      event_ts_e = event_ts,
      ingest_ts = ingest,
      source_e = source,
      load_id = fresh_id\<rparr>"

text \<open>
  \<open>b.model_dump(by_alias=True, mode="json", exclude_none=True)\<close>: the fields in the
  order of their declaration, \<open>load_id\<close> under its alias, and then every field whose
  value is \<open>None\<close> left out.  The result is a Python \<open>dict\<close>, an association list.
\<close>

datatype jvalue = JStr string | JInt int

type_synonym jrecord = "(string \<times> jvalue) list"

definition model_dump_fields :: "Envelope \<Rightarrow> (string \<times> jvalue option) list" where
  "model_dump_fields e =
     [(''id'', map_option JStr (id_e e)),
      (''doi'', map_option JStr (doi_e e)),
      (''title'', map_option JStr (title_e e)),
      (''publication_year'', map_option JInt (publication_year_e e)),
      (''host_venue'', map_option JStr (host_venue_e e)),
      (''primary_author'', map_option JStr (primary_author e)),
      (''email'', map_option JStr (email_e e)),
      (''event_ts'', Some (JStr (event_ts_e e))),
      (''ingest_ts'', Some (JStr (ingest_ts e))),
      (''source'', Some (JStr (source_e e))),
      (''_LOAD_ID'', Some (JStr (load_id e)))]"

fun exclude_none :: "(string \<times> jvalue option) list \<Rightarrow> jrecord" where
  "exclude_none [] = []"
| "exclude_none ((k, None) # kvs) = exclude_none kvs"
| "exclude_none ((k, Some v) # kvs) = (k, v) # exclude_none kvs"

definition model_dump :: "Envelope \<Rightarrow> jrecord" where
  "model_dump e = exclude_none (model_dump_fields e)"

section \<open>The delivery sink: \<open>ingestion/firehose_client.py\<close>\<close>

text \<open>
  The response of \<open>put_record_batch\<close>.  \<open>FailedPutCount = None\<close> is a missing or null
  count; a count that is there is a natural number, as the service defines it.  An
  entry of \<open>RequestResponses\<close> may carry an error code and an error message.
\<close>

record request_response =
  ErrorCode :: "string option"
  ErrorMessage :: "string option"

record put_response =
  FailedPutCount :: "nat option"
  RequestResponses :: "request_response list"

text \<open>
  Everything outside the program that a run reads, as one record:
  \<^item> \<open>replies\<close>: what \<open>session.get\<close> gives, call after call;
  \<^item> \<open>model_validate\<close>: \<open>OpenAlexWork.model_validate\<close>, pydantic's decoder of a raw item;
  \<^item> \<open>now\<close>: the clock, read once for the item of each index;
  \<^item> \<open>uuid4\<close>: the identifier drawn for the envelope of each index;
  \<^item> \<open>dumps\<close>: \<open>json.dumps(r, separators=(",", ":"))\<close>, the standard library's encoder;
  \<^item> \<open>put_record_batch\<close>: the delivery stream's client, which answers the call of each
    index, for a stream name and a list of entries, with a response or an exception.
\<close>

record 'raw world =
  replies :: "'raw reply list"
  model_validate :: "'raw \<Rightarrow> exn + OpenAlexWork"
  now :: "nat \<Rightarrow> datetime"
  uuid4 :: "nat \<Rightarrow> string"
  dumps :: "jrecord \<Rightarrow> string"
  put_record_batch :: "nat \<Rightarrow> string \<Rightarrow> string list \<Rightarrow> exn + put_response"

text \<open>
  What a run does, in order: an effect of the fetcher (a request or a sleep), a call
  of \<open>put_record_batch\<close> with the stream name and the entries, a line on the console.
\<close>

datatype line =
    Starting string string int int real bool
  | DryRunNote nat
  | FailureHeader
  | FailureExample "string option" "string option"
  | SummaryTable int int
  | FailureWarning

datatype 'raw action = Net "'raw event" | Put string "string list" | Print line

text \<open>
  \<open>FirehoseSink.put_records\<close>: one entry per record, the compact JSON of the record and
  a newline, and one call of the client with all of them.  \<open>n\<close> is the number of calls
  made before.
\<close>

definition entry_of :: "'raw world \<Rightarrow> jrecord \<Rightarrow> string" where
  "entry_of w r = dumps w r @ [CHR 0x0A]"

definition put_records ::
  "'raw world \<Rightarrow> string \<Rightarrow> nat \<Rightarrow> jrecord list \<Rightarrow> (exn + put_response) \<times> 'raw action list" where
  "put_records w stream_name n records_json =
     (let entries = map (entry_of w) records_json
      in (put_record_batch w n stream_name entries, [Put stream_name entries]))"

section \<open>The producer: \<open>ingestion/config.py\<close> and \<open>ingestion/producer.py\<close>\<close>

record Settings =
  aws_region :: string
  firehose_name :: string
  openalex_base_url :: string
  openalex_email :: string
  batch_size :: int
  sleep_seconds :: real
  source :: string

definition validate :: "Settings \<Rightarrow> exn + unit" where
  "validate cfg =
     (if openalex_email cfg = [] then
        Inl (ValueError ''OPENALEX_EMAIL is required for polite use of the OpenAlex API.'')
      else if aws_region cfg = [] then Inl (ValueError ''AWS_REGION is required.'')
      else if firehose_name cfg = [] then Inl (ValueError ''FIREHOSE_NAME is required.'')
      else Inr ())"

text \<open>\<open>int(resp.get("FailedPutCount", 0) or 0)\<close>.\<close>

definition failed_put_count :: "put_response \<Rightarrow> int" where
  "failed_put_count resp = (case FailedPutCount resp of None \<Rightarrow> 0 | Some k \<Rightarrow> int k)"

text \<open>
  The first error examples of a response: the loop over \<open>RequestResponses\<close> appends the
  code and message of an entry that has either, and stops once it holds three.
\<close>

definition has_error :: "request_response \<Rightarrow> bool" where
  "has_error r = (truthy_str (ErrorCode r) \<or> truthy_str (ErrorMessage r))"

fun error_examples ::
  "request_response list \<Rightarrow> (string option \<times> string option) list
     \<Rightarrow> (string option \<times> string option) list" where
  "error_examples [] examples = examples"
| "error_examples (r # rr) examples =
     (let examples' = (if has_error r then examples @ [(ErrorCode r, ErrorMessage r)]
                       else examples)
      in if 3 \<le> length examples' then examples' else error_examples rr examples')"

definition failure_report :: "put_response \<Rightarrow> int \<Rightarrow> 'raw action list" where
  "failure_report resp failed_count =
     (if failed_count \<noteq> 0 then
        (let examples = error_examples (RequestResponses resp) []
         in if examples \<noteq> [] then
              Print FailureHeader # map (\<lambda>(code, msg). Print (FailureExample code msg)) examples
            else [])
      else [])"

text \<open>
  \<open>flush(batch, sink, dry_run, total, failed)\<close>, with \<open>total_c\<close> for \<open>total\<close>.  The sink is the world's client with
  the stream name and the number of calls made so far.  The result is the exception
  raised or the new pair of counters, with the effects of the call.
\<close>

definition flush ::
  "'raw world \<Rightarrow> string \<Rightarrow> nat \<Rightarrow> Envelope list \<Rightarrow> bool \<Rightarrow> int \<Rightarrow> int
     \<Rightarrow> (exn + int \<times> int) \<times> 'raw action list" where
  "flush w stream_name n batch dry_run total_c failed =
     (let records = map model_dump batch
      in if dry_run then (Inr (total_c, failed), [Print (DryRunNote (length records))])
         else
           (case put_records w stream_name n records of
              (Inl e, acts) \<Rightarrow> (Inl e, acts)
            | (Inr resp, acts) \<Rightarrow>
                (let total_c' = total_c + int (length records);
                     failed_count = failed_put_count resp;
                     failed' = failed + failed_count
                 in (Inr (total_c', failed'), acts @ failure_report resp failed_count))))"

text \<open>
  The state of \<open>main\<close> while it runs: the two counters, the batch being filled, the
  number of items taken from the fetcher so far, and the effects so far.
\<close>

record 'raw run =
  total_sent :: int
  total_failed :: int
  batch :: "Envelope list"
  seen :: nat
  effects :: "'raw action list"

definition is_put :: "'raw action \<Rightarrow> bool" where
  "is_put a = (case a of Put _ _ \<Rightarrow> True | _ \<Rightarrow> False)"

definition puts_made :: "'raw run \<Rightarrow> nat" where
  "puts_made st = length (filter is_put (effects st))"

text \<open>
  The envelope of a validated work: the work's own address when it has one, else the
  synthetic one of the first author's name.
\<close>

definition envelope_of :: "Settings \<Rightarrow> datetime \<Rightarrow> string \<Rightarrow> OpenAlexWork \<Rightarrow> Envelope" where
  "envelope_of cfg stamp fresh_id w =
     (let email = (if truthy_str (email_w w) then the (email_w w)
                   else synthetic_email (first_author_name w) None)
      in from_openalex w stamp stamp (Some email) (source cfg) fresh_id)"

text \<open>
  The body of the \<open>for raw in oa.works_stream(...)\<close> loop on one item.  The second
  component is the exception that leaves \<open>main\<close>, if any.
\<close>

definition on_item ::
  "'raw world \<Rightarrow> Settings \<Rightarrow> int \<Rightarrow> bool \<Rightarrow> 'raw run \<Rightarrow> 'raw \<Rightarrow> 'raw run \<times> exn option" where
  "on_item w cfg eff_batch_size dry_run st raw =
     (case model_validate w raw of
        Inl e \<Rightarrow> (st, Some e)
      | Inr wk \<Rightarrow>
          (let env = envelope_of cfg (now w (seen st)) (uuid4 w (seen st)) wk;
               st1 = st\<lparr>batch := batch st @ [env], seen := seen st + 1\<rparr>
           in if eff_batch_size \<le> int (length (batch st1)) then
                (case flush w (firehose_name cfg) (puts_made st1) (batch st1) dry_run
                        (total_sent st1) (total_failed st1) of
                   (Inl e, acts) \<Rightarrow> (st1\<lparr>effects := effects st1 @ acts\<rparr>, Some e)
                 | (Inr (t, f), acts) \<Rightarrow>
                     (st1\<lparr>total_sent := t, total_failed := f, batch := [],
                          effects := effects st1 @ acts\<rparr>, None))
              else (st1, None)))"

text \<open>
  The loop of \<open>main\<close> over the effects of the generator: a request or a sleep of the
  fetcher happens, an item yielded goes through the loop's body.  An exception in the
  body ends the run there: the generator is not asked again.
\<close>

fun main_loop ::
  "'raw world \<Rightarrow> Settings \<Rightarrow> int \<Rightarrow> bool \<Rightarrow> 'raw run \<Rightarrow> 'raw event list
     \<Rightarrow> 'raw run \<times> exn option" where
  "main_loop w cfg eff_batch_size dry_run st [] = (st, None)"
| "main_loop w cfg eff_batch_size dry_run st (Yield raw # es) =
     (case on_item w cfg eff_batch_size dry_run st raw of
        (st', Some e) \<Rightarrow> (st', Some e)
      | (st', None) \<Rightarrow> main_loop w cfg eff_batch_size dry_run st' es)"
| "main_loop w cfg eff_batch_size dry_run st (Get u ps # es) =
     main_loop w cfg eff_batch_size dry_run (st\<lparr>effects := effects st @ [Net (Get u ps)]\<rparr>) es"
| "main_loop w cfg eff_batch_size dry_run st (Sleep d # es) =
     main_loop w cfg eff_batch_size dry_run (st\<lparr>effects := effects st @ [Net (Sleep d)]\<rparr>) es"

text \<open>After the loop: the remainder is flushed and the summary printed.\<close>

definition finish :: "'raw world \<Rightarrow> Settings \<Rightarrow> bool \<Rightarrow> 'raw run \<Rightarrow> 'raw run \<times> status" where
  "finish w cfg dry_run st =
     (case (if batch st \<noteq> [] then
              flush w (firehose_name cfg) (puts_made st) (batch st) dry_run
                (total_sent st) (total_failed st)
            else (Inr (total_sent st, total_failed st), [])) of
        (Inl e, acts) \<Rightarrow> (st\<lparr>effects := effects st @ acts\<rparr>, Raised e)
      | (Inr (t, f), acts) \<Rightarrow>
          (st\<lparr>total_sent := t, total_failed := f,
              effects := effects st @ acts @ [Print (SummaryTable t f)]
                       @ (if f \<noteq> 0 then [Print FailureWarning] else [])\<rparr>,
           Done))"

definition initial_run :: "'raw run" where
  "initial_run = \<lparr>total_sent = 0, total_failed = 0, batch = [], seen = 0, effects = []\<rparr>"

text \<open>
  The two effective settings: \<open>batch_size or cfg.batch_size\<close> and
  \<open>batch_sleep if batch_sleep is not None else cfg.sleep_seconds\<close>.
\<close>

definition effective_batch_size :: "int option \<Rightarrow> Settings \<Rightarrow> int" where
  "effective_batch_size cli_batch_size cfg =
     (if truthy_int cli_batch_size then the cli_batch_size else batch_size cfg)"

definition effective_batch_sleep :: "real option \<Rightarrow> Settings \<Rightarrow> real" where
  "effective_batch_sleep cli_batch_sleep cfg =
     (case cli_batch_sleep of None \<Rightarrow> sleep_seconds cfg | Some s \<Rightarrow> s)"

text \<open>
  \<open>main\<close>.  The arguments after the settings are the command line's: \<open>per_page\<close>,
  \<open>updated_since\<close>, \<open>max_pages\<close>, \<open>batch_size\<close>, \<open>batch_sleep\<close> and \<open>dry_run\<close>.  The
  result is the state the run ends in and how it ends.
\<close>

definition main ::
  "'raw world \<Rightarrow> Settings \<Rightarrow> int \<Rightarrow> string option \<Rightarrow> int option \<Rightarrow> int option \<Rightarrow> real option
     \<Rightarrow> bool \<Rightarrow> 'raw run \<times> status" where
  "main w cfg per_page updated_since max_pages cli_batch_size cli_batch_sleep dry_run =
     (case validate cfg of
        Inl e \<Rightarrow> (initial_run, Raised e)
      | Inr _ \<Rightarrow>
          (let eff_batch_size = effective_batch_size cli_batch_size cfg;
               eff_batch_sleep = effective_batch_sleep cli_batch_sleep cfg
           in if eff_batch_size \<le> 0 \<or> 500 < eff_batch_size then
                (initial_run,
                 Raised (BadParameter
                   ''batch_size must be between 1 and 500 for Firehose PutRecordBatch''))
              else
                (let st0 = initial_run\<lparr>effects :=
                       [Print (Starting (firehose_name cfg) (aws_region cfg) per_page
                                 eff_batch_size eff_batch_sleep dry_run)]\<rparr>
                 in case new_client (openalex_base_url cfg) (openalex_email cfg) of
                      Inl e \<Rightarrow> (st0, Raised e)
                    | Inr oa \<Rightarrow>
                        (case works_stream oa per_page updated_since max_pages eff_batch_sleep
                                None (replies w) of
                           (events, ending) \<Rightarrow>
                             (case main_loop w cfg eff_batch_size dry_run st0 events of
                                (st, Some e) \<Rightarrow> (st, Raised e)
                              | (st, None) \<Rightarrow>
                                  (case ending of
                                     Done \<Rightarrow> finish w cfg dry_run st
                                   | Raised e \<Rightarrow> (st, Raised e)
                                   | Pending \<Rightarrow> (st, Pending)))))))"

text \<open>
  Sample data for the producer: settings with the default batch size of 50, a work
  with one author and an address of its own, a page of five items, a world whose
  client reports one failed record on its second call and none otherwise, and an
  envelope without title, DOI and address.
\<close>

definition sample_cfg :: Settings where
  "sample_cfg =
     \<lparr>aws_region = ''us-east-1'', firehose_name = ''stream'',
      openalex_base_url = ''https://api.openalex.org'', openalex_email = ''me@example.com'',
      batch_size = 50, sleep_seconds = 0, source = ''openalex''\<rparr>"

definition sample_work :: OpenAlexWork where
  "sample_work =
     \<lparr>id_w = Some ''W1'', doi_w = None, title_w = None, publication_year_w = Some 2024,
      host_venue_w = Some \<lparr>display_name_v = Some ''V''\<rparr>,
      authorships = Some [\<lparr>author = Some \<lparr>display_name_a = Some ''A''\<rparr>\<rparr>],
      email_w = Some ''x@ex.com'', event_ts_w = None\<rparr>"

definition sample_page5 :: "nat response" where
  "sample_page5 =
     \<lparr>status_code = 200, headers = Map.empty,
      body = Inr \<lparr>results = Some [1, 2, 3, 4, 5], meta = None\<rparr>\<rparr>"

definition sample_world :: "nat world" where
  "sample_world =
     \<lparr>replies = [Inr sample_page1, Inr sample_page2],
      model_validate = (\<lambda>raw. Inr sample_work),
      now = (\<lambda>i. ''2024-01-01T00:00:00Z''),
      uuid4 = (\<lambda>i. ''u''),
      dumps = (\<lambda>r. ''{}''),
      put_record_batch = (\<lambda>n stream_name entries.
        Inr \<lparr>FailedPutCount = Some (if n = 1 then 1 else 0),
             RequestResponses = (if n = 1 then [\<lparr>ErrorCode = Some ''X'', ErrorMessage = Some ''boom''\<rparr>] else [])\<rparr>)\<rparr>"

definition sample_bare :: Envelope where
  "sample_bare =
     \<lparr>id_e = Some ''W1'', doi_e = None, title_e = None, publication_year_e = Some 2024,
      host_venue_e = None, primary_author = None, email_e = None,
      event_ts_e = ''2024-01-01T00:00:00Z'', ingest_ts = ''2024-01-01T00:00:00Z'',
      source_e = ''openalex'', load_id = ''u''\<rparr>"

text \<open>A call of the client is within the ceiling: from 1 to 500 entries.\<close>

definition put_ok :: "'raw action \<Rightarrow> bool" where
  "put_ok a = (case a of Put _ entries \<Rightarrow> 1 \<le> length entries \<and> length entries \<le> 500 | _ \<Rightarrow> True)"

text \<open>
  Views of the effects of a run: the fetcher's requests and sleeps, the sizes of the
  batches the client was called with, and the sizes the dry-run notices report.
\<close>

definition nets :: "'raw action list \<Rightarrow> 'raw event list" where
  "nets acts = concat (map (\<lambda>a. case a of Net ev \<Rightarrow> [ev] | _ \<Rightarrow> []) acts)"

definition put_sizes :: "'raw action list \<Rightarrow> nat list" where
  "put_sizes acts = concat (map (\<lambda>a. case a of Put _ entries \<Rightarrow> [length entries] | _ \<Rightarrow> []) acts)"

definition dry_notes :: "'raw action list \<Rightarrow> nat list" where
  "dry_notes acts =
     concat (map (\<lambda>a. case a of Print (DryRunNote k) \<Rightarrow> [k] | _ \<Rightarrow> []) acts)"

text \<open>
  Two states of \<open>main\<close>, the first of a dry run and the second of a normal run, have
  done the same work: the same batch is being filled, as many items have been taken
  and normalized, the fetcher has done the same, and the dry run has announced the
  batch sizes that the normal run has delivered.
\<close>

definition same_work :: "'raw run \<Rightarrow> 'raw run \<Rightarrow> bool" where
  "same_work d n =
     (batch d = batch n \<and> seen d = seen n \<and> nets (effects d) = nets (effects n)
      \<and> dry_notes (effects d) = put_sizes (effects n))"

text \<open>The delivery stream's client answers every call with a response.\<close>

definition never_raises :: "'raw world \<Rightarrow> bool" where
  "never_raises w = (\<forall>n s entries. \<exists>resp. put_record_batch w n s entries = Inr resp)"

text \<open>A dry run keeps the counters at zero and never calls the client.\<close>

definition dry_state :: "'raw run \<Rightarrow> bool" where
  "dry_state st =
     (total_sent st = 0 \<and> total_failed st = 0 \<and> filter is_put (effects st) = [])"

text \<open>The sample world with one page of five items.\<close>

definition sample_world5 :: "nat world" where
  "sample_world5 = sample_world\<lparr>replies := [Inr sample_page5]\<rparr>"

section \<open>Properties of the synthetic identity\<close>

lemma hex_digit_in_hex_chars: "hex_digit n \<in> set hex_chars"
proof -
  have "nat (n mod 16) < 16"
    by (simp add: nat_less_iff)
  moreover have "length hex_chars = 16"
    by (simp add: hex_chars_def)
  ultimately show ?thesis
    unfolding hex_digit_def by (metis nth_mem)
qed

lemma length_hex_u32: "length (hex_u32 w) = 8"
  by (simp add: hex_u32_def)

lemma is_hex_hex_u32: "is_hex (hex_u32 w)"
  by (simp add: is_hex_def hex_u32_def list_all_iff hex_digit_in_hex_chars)

lemma is_hex_append: "is_hex (xs @ ys) \<longleftrightarrow> is_hex xs \<and> is_hex ys"
  by (simp add: is_hex_def)

lemma is_hex_take: "is_hex xs \<Longrightarrow> is_hex (take n xs)"
  unfolding is_hex_def list_all_iff by (meson in_set_takeD)

lemma length_sha1_hexdigest: "length (sha1_hexdigest m) = 40"
  by (cases "sha1 m") (simp add: length_hex_u32)

lemma is_hex_sha1_hexdigest: "is_hex (sha1_hexdigest m)"
  by (cases "sha1 m") (simp add: is_hex_append is_hex_hex_u32)

text \<open>The digest of the placeholder, as \<open>hashlib\<close> computes it.\<close>

lemma sha1_hexdigest_unknown:
  "sha1_hexdigest ''unknown'' = ''50d8b4a941c26b89482c94ab324b5a274f9ced66''"
  by code_simp

lemma sha1_hexdigest_empty:
  "sha1_hexdigest [] = ''da39a3ee5e6b4b0d3255bfef95601890afd80709''"
  by code_simp

text \<open>
  Claim C5, as amended.  For every optional name and every optional domain,
  \<open>synthetic_email\<close> is a function of its two arguments alone (no clock, no randomness,
  no state), and its value is \<open>user_\<close>, then the first ten characters of the SHA-1 hex
  digest of the seed, then \<open>@\<close>, then the domain, where the seed is the name, or the
  placeholder \<open>unknown\<close> when the name is \<open>None\<close> or the empty string, and the domain is
  \<open>example.com\<close> when left out.  The digest part is exactly ten hexadecimal characters.
\<close>

theorem synthetic_email_form:
  "synthetic_email name domain =
     ''user_'' @ take 10 (sha1_hexdigest (if name = None \<or> name = Some [] then ''unknown'' else the name))
       @ ''@'' @ (if domain = None then ''example.com'' else the domain)
   \<and> length (take 10 (sha1_hexdigest (if name = None \<or> name = Some [] then ''unknown'' else the name))) = 10
   \<and> is_hex (take 10 (sha1_hexdigest (if name = None \<or> name = Some [] then ''unknown'' else the name)))"
proof -
  have seed: "name_or_unknown name = (if name = None \<or> name = Some [] then ''unknown'' else the name)"
    by (cases name) (simp_all add: name_or_unknown_def)
  have dom: "domain_or_default domain = (if domain = None then ''example.com'' else the domain)"
    by (cases domain) (simp_all add: domain_or_default_def)
  show ?thesis
    by (simp add: synthetic_email_def Let_def seed dom length_sha1_hexdigest
        is_hex_take is_hex_sha1_hexdigest del: sha1_hexdigest.simps)
qed

theorem synthetic_email_form_witness:
  "synthetic_email (Some ''Alice Smith'') None = ''user_99b060e16d@example.com''
   \<and> synthetic_email None (Some ''acme.test'') = ''user_50d8b4a941@acme.test''"
proof -
  have a: "take 10 (sha1_hexdigest ''Alice Smith'') = ''99b060e16d''"
    by code_simp
  have u: "take 10 (sha1_hexdigest ''unknown'') = ''50d8b4a941''"
    by (simp add: sha1_hexdigest_unknown del: sha1_hexdigest.simps)
  show ?thesis
    using synthetic_email_form [of "Some ''Alice Smith''" None]
      synthetic_email_form [of None "Some ''acme.test''"] a u
    by (simp del: sha1_hexdigest.simps)
qed

text \<open>
  Claim C5, as stated, takes the digest of the name itself whenever a name is given.
  For the empty name the code hashes the placeholder instead: the address is that of
  \<open>unknown\<close>, not that of the empty string.
\<close>

theorem synthetic_email_empty_name_counterexample:
  "synthetic_email (Some []) (Some ''example.com'')
     \<noteq> ''user_'' @ take 10 (sha1_hexdigest []) @ ''@'' @ ''example.com''"
  by (simp add: synthetic_email_def name_or_unknown_def domain_or_default_def
      sha1_hexdigest_unknown sha1_hexdigest_empty del: sha1_hexdigest.simps)

section \<open>Properties of the fetcher\<close>

lemma fst_emit: "fst (emit es t) = es @ fst t"
  by (simp add: emit_def)

lemma snd_emit: "snd (emit es t) = snd t"
  by (simp add: emit_def)

lemma yielded_append: "yielded (es @ fs) = yielded es @ yielded fs"
  by (induction es rule: yielded.induct) simp_all

lemma yielded_map_Yield: "yielded (map Yield xs) = xs"
  by (induction xs) simp_all







lemma page_of_SomeD:
  assumes "page_of r = Some p"
  obtains resp where "r = Inr resp" "status_code resp \<noteq> 429"
    "raise_for_status resp = Inr ()" "body resp = Inr p"
  using assms by (auto simp: page_of_def split: sum.splits if_splits)

lemma works_iter_last_page:
  assumes "page_of r = Some p" and "\<not> truthy_str (page_next_cursor p)"
  shows "works_iter url mp ss params pc r = Break (Get url params # map Yield (page_results p))"
  using assms by (auto elim!: page_of_SomeD simp: works_iter_def Let_def)

lemma works_iter_next_page:
  assumes "page_of r = Some p" and "page_next_cursor p = Some c" and "c \<noteq> []"
    and "\<not> (truthy_int mp \<and> the mp \<le> pc + 1)" and "py_sleep ss = Inr ()"
  shows "works_iter url mp ss params pc r =
           Again (Get url params # map Yield (page_results p) @ (if ss = 0 then [] else [Sleep ss]))
             (dict_set ''cursor'' (PStr c) params) (pc + 1)"
  using assms by (auto elim!: page_of_SomeD simp: works_iter_def Let_def truthy_str_def)

text \<open>
  Claim C4.  For a first page that names a non-empty next cursor and a second page
  whose cursor is absent, null or empty, \<open>works_stream\<close> requests the first page with
  the initial parameters, yields its items in order, requests the second page with the
  cursor of the first, yields its items in order, and then ends normally, reading no
  further reply.  The page cap must not stop the stream after the first page, and the
  pause between pages must be a duration \<open>sleep\<close> accepts.  From any state of the loop,
  a page without a next cursor ends the stream after its items.
\<close>

theorem cursor_pagination:
  assumes "page_of r1 = Some p1" and "page_next_cursor p1 = Some c" and "c \<noteq> []"
    and "page_of r2 = Some p2" and "\<not> truthy_str (page_next_cursor p2)"
    and "\<not> (truthy_int max_pages \<and> the max_pages \<le> 1)"
    and "py_sleep pause = Inr ()"
  shows "works_stream cl per_page updated_since max_pages pause query_params
           (r1 # r2 # rest) =
           (Get (base_url cl @ ''/works'')
                (initial_params cl per_page updated_since query_params)
              # map Yield (page_results p1)
              @ (if pause = 0 then [] else [Sleep pause])
              @ Get (base_url cl @ ''/works'')
                  (dict_set ''cursor'' (PStr c)
                     (initial_params cl per_page updated_since query_params))
              # map Yield (page_results p2),
            Done)
         \<and> yielded (fst (works_stream cl per_page updated_since max_pages pause
               query_params (r1 # r2 # rest))) = page_results p1 @ page_results p2
         \<and> works_loop url max_pages pause params page_count (r2 # rest) =
             (Get url params # map Yield (page_results p2), Done)"
proof -
  let ?url = "base_url cl @ ''/works''"
  let ?p0 = "initial_params cl per_page updated_since query_params"
  have cap: "\<not> (truthy_int max_pages \<and> the max_pages \<le> 0 + 1)"
    using assms(6) by simp
  have first: "works_iter ?url max_pages pause ?p0 0 r1 =
      Again (Get ?url ?p0 # map Yield (page_results p1)
               @ (if pause = 0 then [] else [Sleep pause]))
        (dict_set ''cursor'' (PStr c) ?p0) (0 + 1)"
    by (rule works_iter_next_page [OF assms(1,2,3) cap assms(7)])
  have last: "\<And>u ps n. works_iter u max_pages pause ps n r2 =
      Break (Get u ps # map Yield (page_results p2))"
    by (rule works_iter_last_page [OF assms(4,5)])
  have whole: "works_stream cl per_page updated_since max_pages pause query_params
      (r1 # r2 # rest) =
      (Get ?url ?p0 # map Yield (page_results p1)
         @ (if pause = 0 then [] else [Sleep pause])
         @ Get ?url (dict_set ''cursor'' (PStr c) ?p0) # map Yield (page_results p2), Done)"
    by (simp add: works_stream_def first last emit_def)
  have items: "yielded (fst (works_stream cl per_page updated_since max_pages pause
      query_params (r1 # r2 # rest))) = page_results p1 @ page_results p2"
    by (simp add: whole yielded_append yielded_map_Yield)
  have ends: "works_loop url max_pages pause params page_count (r2 # rest) =
      (Get url params # map Yield (page_results p2), Done)"
    by (simp add: last)
  show ?thesis
    using whole items ends by blast
qed

lemma truthy_int_Some_0: "truthy_int (Some 0) = False"
  by (simp add: truthy_int_def)

lemma truthy_int_None: "truthy_int None = False"
  by (simp add: truthy_int_def)

lemma works_iter_cap_zero:
  "works_iter url (Some 0) ss params pc r = works_iter url None ss params pc r"
  unfolding works_iter_def truthy_int_Some_0 truthy_int_None simp_thms by (rule TrueI)

lemma works_loop_cap_zero:
  "works_loop url (Some 0) ss params pc rs = works_loop url None ss params pc rs"
proof (induction rs arbitrary: params pc)
  case Nil
  show ?case by simp
next
  case (Cons r rs)
  show ?case
    by (cases "works_iter url None ss params pc r") (simp_all add: works_iter_cap_zero Cons.IH)
qed

lemma works_loop_uncapped:
  assumes "list_all more_pages rs" and "py_sleep ss = Inr ()"
  shows "snd (works_loop url None ss params pc rs) = Pending
         \<and> yielded (fst (works_loop url None ss params pc rs)) =
             concat (map (\<lambda>r. page_results (the (page_of r))) rs)
         \<and> length (filter (\<lambda>e. case e of Get _ _ \<Rightarrow> True | _ \<Rightarrow> False)
               (fst (works_loop url None ss params pc rs))) = length rs"
  using assms(1)
proof (induction rs arbitrary: params pc)
  case Nil
  show ?case by simp
next
  case (Cons r rs)
  from Cons.prems obtain p c where p: "page_of r = Some p" "page_next_cursor p = Some c" "c \<noteq> []"
    by (auto simp: more_pages_def truthy_str_def split: option.splits)
  have cap: "\<not> (truthy_int None \<and> the None \<le> pc + 1)"
    by (simp add: truthy_int_def)
  have it: "works_iter url None ss params pc r =
      Again (Get url params # map Yield (page_results p) @ (if ss = 0 then [] else [Sleep ss]))
        (dict_set ''cursor'' (PStr c) params) (pc + 1)"
    by (rule works_iter_next_page [OF p cap assms(2)])
  have rest: "list_all more_pages rs"
    using Cons.prems by simp
  show ?case
    using Cons.IH [OF rest, of "dict_set ''cursor'' (PStr c) params" "pc + 1"] p(1)
    by (simp add: it fst_emit snd_emit yielded_append yielded_map_Yield)
qed

text \<open>
  Claim C9.  A page cap of 0 is no cap: for all replies the stream with
  \<open>max_pages = 0\<close> is the stream with \<open>max_pages = None\<close>.  Over any number of pages that
  all name a next cursor, it does not end: every reply is requested, every item is
  yielded, and the generator is waiting for the next page.
\<close>

theorem page_cap_zero_is_no_cap:
  "works_stream cl per_page updated_since (Some 0) pause query_params rs =
     works_stream cl per_page updated_since None pause query_params rs
   \<and> (list_all more_pages rs \<and> py_sleep pause = Inr () \<longrightarrow>
        snd (works_stream cl per_page updated_since (Some 0) pause query_params rs)
          = Pending
        \<and> yielded (fst (works_stream cl per_page updated_since (Some 0) pause
              query_params rs)) = concat (map (\<lambda>r. page_results (the (page_of r))) rs)
        \<and> length (filter (\<lambda>e. case e of Get _ _ \<Rightarrow> True | _ \<Rightarrow> False)
              (fst (works_stream cl per_page updated_since (Some 0) pause
                 query_params rs))) = length rs)"
  using works_loop_uncapped [of rs pause]
  by (simp add: works_stream_def works_loop_cap_zero)

text \<open>
  Claim C10.  A 429 response whose \<open>Retry-After\<close> header is present and is not an
  integer literal (\<open>int\<close> refuses it) makes \<open>works_stream\<close> raise \<open>ValueError\<close> right after
  the request: there is no sleep and no retry, nothing is yielded, and the replies that
  follow are never asked for.
\<close>

theorem retry_after_parse_error:
  assumes "status_code resp = 429"
    and "headers resp ''Retry-After'' = Some v"
    and "parse_int_literal v = None"
  shows "works_loop url max_pages pause params page_count (Inr resp # rs) =
           ([Get url params], Raised (ValueError ''invalid literal for int() with base 10''))
         \<and> works_stream cl per_page updated_since max_pages pause query_params
             (Inr resp # rs) =
           ([Get (base_url cl @ ''/works'')
               (initial_params cl per_page updated_since query_params)],
            Raised (ValueError ''invalid literal for int() with base 10''))"
proof -
  have "retry_after resp = Inl (ValueError ''invalid literal for int() with base 10'')"
    using assms(2,3) by (simp add: retry_after_def py_int_def)
  then have "\<And>u ps n. works_iter u max_pages pause ps n (Inr resp) =
      Raise [Get u ps] (ValueError ''invalid literal for int() with base 10'')"
    using assms(1) by (simp add: works_iter_def)
  then show ?thesis
    by (simp add: works_stream_def)
qed

lemma page_of_sample_page1:
  "page_of (Inr sample_page1) = Some \<lparr>results = Some [1, 2], meta = Some \<lparr>next_cursor = Some ''abc''\<rparr>\<rparr>"
  by (simp add: page_of_def sample_page1_def raise_for_status_def)

lemma page_of_sample_page2:
  "page_of (Inr sample_page2) = Some \<lparr>results = Some [3], meta = Some \<lparr>next_cursor = None\<rparr>\<rparr>"
  by (simp add: page_of_def sample_page2_def raise_for_status_def)

lemma initial_params_sample:
  "initial_params sample_client 2 None None = sample_params"
  by (simp add: initial_params_def sample_client_def sample_params_def truthy_str_def)

lemma base_url_sample: "base_url sample_client @ ''/works'' = ''https://api.openalex.org/works''"
  by (simp add: sample_client_def)







theorem cursor_pagination_witness:
  "works_stream sample_client 2 None None 0 None [Inr sample_page1, Inr sample_page2] =
     ([Get ''https://api.openalex.org/works'' sample_params, Yield 1, Yield 2,
       Get ''https://api.openalex.org/works''
         [(''per_page'', PInt 2), (''mailto'', PStr ''me@example.com''), (''cursor'', PStr ''abc'')],
       Yield 3], Done)
   \<and> yielded (fst (works_stream sample_client 2 None None 0 None
         [Inr sample_page1, Inr sample_page2])) = [1, 2, 3]"
proof -
  have c: "page_next_cursor \<lparr>results = Some [1, 2 :: nat], meta = Some \<lparr>next_cursor = Some ''abc''\<rparr>\<rparr>
      = Some ''abc''"
    by (simp add: page_next_cursor_def)
  have e: "\<not> truthy_str (page_next_cursor
      \<lparr>results = Some [3 :: nat], meta = Some \<lparr>next_cursor = None\<rparr>\<rparr>)"
    by (simp add: page_next_cursor_def truthy_str_def)
  have cap: "\<not> (truthy_int None \<and> the None \<le> 1)"
    by (simp add: truthy_int_def)
  have sl: "py_sleep 0 = Inr ()"
    by (simp add: py_sleep_def)
  have ne: "''abc'' \<noteq> []"
    by simp
  note th = cursor_pagination [OF page_of_sample_page1 c ne page_of_sample_page2 e cap sl,
      of sample_client 2 None None "[]" "''u''" sample_params 0]
  have whole: "works_stream sample_client 2 None None 0 None [Inr sample_page1, Inr sample_page2] =
     ([Get ''https://api.openalex.org/works'' sample_params, Yield 1, Yield 2,
       Get ''https://api.openalex.org/works''
         [(''per_page'', PInt 2), (''mailto'', PStr ''me@example.com''), (''cursor'', PStr ''abc'')],
       Yield 3], Done)"
    using th [THEN conjunct1]
    by (simp add: initial_params_sample base_url_sample page_results_def)
      (simp add: sample_params_def)
  have items: "yielded (fst (works_stream sample_client 2 None None 0 None
         [Inr sample_page1, Inr sample_page2])) = [1, 2, 3]"
    using th [THEN conjunct2, THEN conjunct1] by (simp add: page_results_def)
  show ?thesis
    using whole items by (rule conjI)
qed

theorem page_cap_zero_is_no_cap_witness:
  "list_all more_pages [Inr sample_page1, Inr sample_page1, Inr sample_page1]
   \<and> py_sleep 0 = Inr ()
   \<and> snd (works_stream sample_client 2 None (Some 0) 0 None
        [Inr sample_page1, Inr sample_page1, Inr sample_page1]) = Pending
   \<and> yielded (fst (works_stream sample_client 2 None (Some 0) 0 None
        [Inr sample_page1, Inr sample_page1, Inr sample_page1])) = [1, 2, 1, 2, 1, 2]"
proof -
  let ?rs = "[Inr sample_page1, Inr sample_page1, Inr sample_page1]"
  have m: "list_all more_pages ?rs"
    by (simp add: more_pages_def page_of_sample_page1 page_next_cursor_def truthy_str_def)
  have sl: "py_sleep 0 = Inr ()"
    by (simp add: py_sleep_def)
  note th = page_cap_zero_is_no_cap [of sample_client 2 None 0 None ?rs, THEN conjunct2,
      rule_format, OF conjI [OF m sl]]
  have st: "snd (works_stream sample_client 2 None (Some 0) 0 None ?rs) = Pending"
    using th by (rule conjunct1)
  have items: "yielded (fst (works_stream sample_client 2 None (Some 0) 0 None ?rs)) =
      [1, 2, 1, 2, 1, 2]"
    using th [THEN conjunct2, THEN conjunct1] by (simp add: page_of_sample_page1 page_results_def)
  show ?thesis
    using m sl st items by blast
qed

lemma parse_http_date: "parse_int_literal ''Wed, 21 Oct 2015 07:28:00 GMT'' = None"
  by code_simp

theorem retry_after_parse_error_witness:
  "status_code sample_429_date = 429
   \<and> headers sample_429_date ''Retry-After'' = Some ''Wed, 21 Oct 2015 07:28:00 GMT''
   \<and> parse_int_literal ''Wed, 21 Oct 2015 07:28:00 GMT'' = None
   \<and> works_stream sample_client 2 None None 0 None
        [Inr sample_429_date, Inr sample_page1, Inr sample_page2] =
      ([Get ''https://api.openalex.org/works'' sample_params],
       Raised (ValueError ''invalid literal for int() with base 10''))"
proof -
  have s: "status_code sample_429_date = 429"
    by (simp add: sample_429_date_def)
  have h: "headers sample_429_date ''Retry-After'' = Some ''Wed, 21 Oct 2015 07:28:00 GMT''"
    by (simp add: sample_429_date_def)
  have r: "works_stream sample_client 2 None None 0 None
        [Inr sample_429_date, Inr sample_page1, Inr sample_page2] =
      ([Get ''https://api.openalex.org/works'' sample_params],
       Raised (ValueError ''invalid literal for int() with base 10''))"
    using retry_after_parse_error [OF s h parse_http_date, of "''u''" None 0 sample_params 0
        "[Inr sample_page1, Inr sample_page2]" sample_client 2 None None, THEN conjunct2]
    by (simp add: initial_params_sample base_url_sample)
  show ?thesis
    using s h parse_http_date r by blast
qed

lemma dropWhile_keeps: "x \<in> set xs \<Longrightarrow> \<not> P x \<Longrightarrow> x \<in> set (dropWhile P xs)"
  by (induction xs) auto

lemma strip_int_keeps: "c \<in> set s \<Longrightarrow> \<not> int_space c \<Longrightarrow> c \<in> set (strip_int s)"
  by (simp add: strip_int_def dropWhile_keeps)

lemma parse_digits_chars:
  "parse_digits acc s = Some n \<Longrightarrow> c \<in> set s \<Longrightarrow> is_digit c \<or> c = CHR ''_''"
  by (induction acc s rule: parse_digits.induct) (auto split: if_splits)

lemma parse_unsigned_chars:
  "parse_unsigned s = Some n \<Longrightarrow> c \<in> set s \<Longrightarrow> is_digit c \<or> c = CHR ''_''"
  by (cases s) (auto simp: parse_unsigned_def split: if_splits dest: parse_digits_chars)

lemma parse_int_literal_chars:
  assumes "parse_int_literal s = Some n" and "c \<in> set s"
  shows "is_digit c \<or> c = CHR ''_'' \<or> c = CHR ''+'' \<or> c = CHR ''-'' \<or> int_space c"
proof (rule ccontr)
  assume neg: "\<not> ?thesis"
  then have "c \<in> set (strip_int s)"
    using assms(2) strip_int_keeps by blast
  moreover obtain d ds where sd: "strip_int s = d # ds"
    using assms(1) by (cases "strip_int s") (simp_all add: parse_int_literal_def)
  ultimately have "c = d \<or> c \<in> set ds"
    by simp
  moreover have "parse_unsigned ds \<noteq> None \<or> parse_unsigned (d # ds) \<noteq> None"
    using assms(1) sd by (auto simp: parse_int_literal_def split: if_splits)
  ultimately show False
    using neg assms(1) sd
    by (auto simp: parse_int_literal_def split: if_splits dest: parse_unsigned_chars)
qed

section \<open>Serialization\<close>

lemma exclude_none_keys:
  "k \<in> fst ` set (exclude_none kvs) \<longleftrightarrow> (\<exists>v. (k, Some v) \<in> set kvs)"
  by (induction kvs rule: exclude_none.induct) auto

lemma flush_first_effect:
  "take 1 (snd (flush w s n envs False t f)) = [Put s (map (entry_of w) (map model_dump envs))]"
  by (simp add: flush_def put_records_def Let_def split: sum.splits prod.splits)

lemma model_dump_keys:
  "(''id'' \<in> fst ` set (model_dump e) \<longleftrightarrow> id_e e \<noteq> None)
   \<and> (''doi'' \<in> fst ` set (model_dump e) \<longleftrightarrow> doi_e e \<noteq> None)
   \<and> (''title'' \<in> fst ` set (model_dump e) \<longleftrightarrow> title_e e \<noteq> None)
   \<and> (''publication_year'' \<in> fst ` set (model_dump e) \<longleftrightarrow> publication_year_e e \<noteq> None)
   \<and> (''host_venue'' \<in> fst ` set (model_dump e) \<longleftrightarrow> host_venue_e e \<noteq> None)
   \<and> (''primary_author'' \<in> fst ` set (model_dump e) \<longleftrightarrow> primary_author e \<noteq> None)
   \<and> (''email'' \<in> fst ` set (model_dump e) \<longleftrightarrow> email_e e \<noteq> None)
   \<and> ''event_ts'' \<in> fst ` set (model_dump e)
   \<and> ''ingest_ts'' \<in> fst ` set (model_dump e)
   \<and> ''source'' \<in> fst ` set (model_dump e)
   \<and> ''_LOAD_ID'' \<in> fst ` set (model_dump e)"
  unfolding model_dump_def exclude_none_keys
  by (auto simp: model_dump_fields_def eq_commute [of "Some _" "map_option _ _"])

text \<open>
  Claim C8.  For every envelope, the record \<open>flush\<close> hands to the sink has a key for
  an optional field exactly when the field's value is not \<open>None\<close> (\<open>id\<close>, \<open>doi\<close>,
  \<open>title\<close>, \<open>publication_year\<close>, \<open>host_venue\<close>, \<open>primary_author\<close>, \<open>email\<close>), and always
  the keys \<open>event_ts\<close>, \<open>ingest_ts\<close>, \<open>source\<close> and \<open>_LOAD_ID\<close>: an envelope without
  title, DOI or address gives an object without those three keys.  What the sink's
  client receives is one entry for each such record of the batch, in order.
\<close>

theorem model_dump_omits_none:
  "(''id'' \<in> fst ` set (model_dump e) \<longleftrightarrow> id_e e \<noteq> None)
   \<and> (''doi'' \<in> fst ` set (model_dump e) \<longleftrightarrow> doi_e e \<noteq> None)
   \<and> (''title'' \<in> fst ` set (model_dump e) \<longleftrightarrow> title_e e \<noteq> None)
   \<and> (''publication_year'' \<in> fst ` set (model_dump e) \<longleftrightarrow> publication_year_e e \<noteq> None)
   \<and> (''host_venue'' \<in> fst ` set (model_dump e) \<longleftrightarrow> host_venue_e e \<noteq> None)
   \<and> (''primary_author'' \<in> fst ` set (model_dump e) \<longleftrightarrow> primary_author e \<noteq> None)
   \<and> (''email'' \<in> fst ` set (model_dump e) \<longleftrightarrow> email_e e \<noteq> None)
   \<and> ''event_ts'' \<in> fst ` set (model_dump e)
   \<and> ''ingest_ts'' \<in> fst ` set (model_dump e)
   \<and> ''source'' \<in> fst ` set (model_dump e)
   \<and> ''_LOAD_ID'' \<in> fst ` set (model_dump e)
   \<and> take 1 (snd (flush w s n envs False t f)) =
       [Put s (map (entry_of w) (map model_dump envs))]"
  using model_dump_keys [of e] flush_first_effect [of w s n envs t f] by blast

theorem model_dump_omits_none_witness:
  "title_e sample_bare = None \<and> doi_e sample_bare = None \<and> email_e sample_bare = None
   \<and> ''title'' \<notin> fst ` set (model_dump sample_bare)
   \<and> ''doi'' \<notin> fst ` set (model_dump sample_bare)
   \<and> ''email'' \<notin> fst ` set (model_dump sample_bare)
   \<and> model_dump sample_bare =
       [(''id'', JStr ''W1''), (''publication_year'', JInt 2024),
        (''event_ts'', JStr ''2024-01-01T00:00:00Z''),
        (''ingest_ts'', JStr ''2024-01-01T00:00:00Z''),
        (''source'', JStr ''openalex''), (''_LOAD_ID'', JStr ''u'')]"
proof -
  have n: "title_e sample_bare = None" "doi_e sample_bare = None" "email_e sample_bare = None"
    by (simp_all add: sample_bare_def)
  have d: "model_dump sample_bare =
       [(''id'', JStr ''W1''), (''publication_year'', JInt 2024),
        (''event_ts'', JStr ''2024-01-01T00:00:00Z''),
        (''ingest_ts'', JStr ''2024-01-01T00:00:00Z''),
        (''source'', JStr ''openalex''), (''_LOAD_ID'', JStr ''u'')]"
    by (simp add: model_dump_def model_dump_fields_def sample_bare_def)
  show ?thesis
    using model_dump_omits_none [of sample_bare] n d by simp
qed

section \<open>Counters\<close>

lemma failed_put_count_nonneg: "0 \<le> failed_put_count resp"
  by (simp add: failed_put_count_def split: option.splits)

lemma flush_put_ok:
  assumes "put_record_batch w n s (map (entry_of w) (map model_dump envs)) = Inr resp"
  shows "flush w s n envs False t f =
           (Inr (t + int (length envs), f + failed_put_count resp),
            Put s (map (entry_of w) (map model_dump envs))
              # failure_report resp (failed_put_count resp))"
  using assms by (simp add: flush_def put_records_def Let_def)

lemma flush_put_raises:
  assumes "put_record_batch w n s (map (entry_of w) (map model_dump envs)) = Inl e"
  shows "flush w s n envs False t f =
           (Inl e, [Put s (map (entry_of w) (map model_dump envs))])"
  using assms by (simp add: flush_def put_records_def Let_def)

lemma flush_dry:
  "flush w s n envs True t f = (Inr (t, f), [Print (DryRunNote (length envs))])"
  by (simp add: flush_def Let_def)

lemma flush_mono:
  assumes "flush w s n envs dry t f = (Inr (t', f'), acts)"
  shows "t \<le> t' \<and> f \<le> f'"
proof (cases dry)
  case True
  then show ?thesis using assms by (simp add: flush_dry)
next
  case False
  show ?thesis
  proof (cases "put_record_batch w n s (map (entry_of w) (map model_dump envs))")
    case (Inl e)
    then show ?thesis using assms False by (simp add: flush_put_raises)
  next
    case (Inr resp)
    then show ?thesis
      using assms False failed_put_count_nonneg [of resp] by (auto simp: flush_put_ok)
  qed
qed

lemma on_item_mono:
  "total_sent st \<le> total_sent (fst (on_item w cfg bs dry st raw))
   \<and> total_failed st \<le> total_failed (fst (on_item w cfg bs dry st raw))"
proof (cases "model_validate w raw")
  case (Inl e)
  then show ?thesis by (simp add: on_item_def)
next
  case (Inr wk)
  let ?st1 = "st\<lparr>batch := batch st @ [envelope_of cfg (now w (seen st)) (uuid4 w (seen st)) wk],
                 seen := seen st + 1\<rparr>"
  obtain r acts where fl: "flush w (firehose_name cfg) (puts_made ?st1) (batch ?st1) dry
      (total_sent ?st1) (total_failed ?st1) = (r, acts)"
    by (cases "flush w (firehose_name cfg) (puts_made ?st1) (batch ?st1) dry
      (total_sent ?st1) (total_failed ?st1)") blast
  show ?thesis
  proof (cases r)
    case (Inl e)
    then show ?thesis using Inr fl by (simp add: on_item_def Let_def)
  next
    case r: (Inr tf)
    obtain t f where tf: "tf = (t, f)" by (cases tf) blast
    have "total_sent ?st1 \<le> t \<and> total_failed ?st1 \<le> f"
      using flush_mono fl r tf by blast
    then show ?thesis using Inr fl r tf by (simp add: on_item_def Let_def)
  qed
qed

lemma main_loop_mono:
  "total_sent st \<le> total_sent (fst (main_loop w cfg bs dry st es))
   \<and> total_failed st \<le> total_failed (fst (main_loop w cfg bs dry st es))"
proof (induction w cfg bs dry st es rule: main_loop.induct)
  case (1 w cfg bs dry st)
  show ?case by simp
next
  case (2 w cfg bs dry st raw es)
  obtain st' r where oi: "on_item w cfg bs dry st raw = (st', r)"
    by (cases "on_item w cfg bs dry st raw") blast
  have m: "total_sent st \<le> total_sent st' \<and> total_failed st \<le> total_failed st'"
    using on_item_mono [of st w cfg bs dry raw] oi by simp
  show ?case
  proof (cases r)
    case None
    then show ?thesis using 2 oi m by fastforce
  next
    case (Some e)
    then show ?thesis using oi m by simp
  qed
next
  case (3 w cfg bs dry st u ps es)
  then show ?case by simp
next
  case (4 w cfg bs dry st d es)
  then show ?case by simp
qed

lemma finish_mono:
  "total_sent st \<le> total_sent (fst (finish w cfg dry st))
   \<and> total_failed st \<le> total_failed (fst (finish w cfg dry st))"
proof (cases "batch st = []")
  case True
  then show ?thesis by (simp add: finish_def)
next
  case False
  obtain r acts where fl: "flush w (firehose_name cfg) (puts_made st) (batch st) dry
      (total_sent st) (total_failed st) = (r, acts)"
    by (cases "flush w (firehose_name cfg) (puts_made st) (batch st) dry
      (total_sent st) (total_failed st)") blast
  show ?thesis
  proof (cases r)
    case (Inl e)
    then show ?thesis using False fl by (simp add: finish_def)
  next
    case r: (Inr tf)
    obtain t f where tf: "tf = (t, f)" by (cases tf) blast
    have "total_sent st \<le> t \<and> total_failed st \<le> f"
      using flush_mono fl r tf by blast
    then show ?thesis using False fl r tf by (simp add: finish_def)
  qed
qed

lemma main_cases:
  fixes w :: "'raw world"
  obtains (config) e where "main w cfg pp us mp cb cs dry = (initial_run, Raised e)"
  | (client) e where
      "main w cfg pp us mp cb cs dry =
         (initial_run\<lparr>effects := [Print (Starting (firehose_name cfg) (aws_region cfg) pp
            (effective_batch_size cb cfg) (effective_batch_sleep cs cfg) dry)]\<rparr>, Raised e)"
  | (run) oa events ending st r where
      "0 < effective_batch_size cb cfg" "effective_batch_size cb cfg \<le> 500"
      "works_stream oa pp us mp (effective_batch_sleep cs cfg) None (replies w) = (events, ending)"
      "main_loop w cfg (effective_batch_size cb cfg) dry
         (initial_run\<lparr>effects := [Print (Starting (firehose_name cfg) (aws_region cfg) pp
            (effective_batch_size cb cfg) (effective_batch_sleep cs cfg) dry)]\<rparr>) events = (st, r)"
      "main w cfg pp us mp cb cs dry =
         (case r of
            Some e \<Rightarrow> (st, Raised e)
          | None \<Rightarrow>
              (case ending of
                 Done \<Rightarrow> finish w cfg dry st
               | Raised e \<Rightarrow> (st, Raised e)
               | Pending \<Rightarrow> (st, Pending)))"
proof (cases "validate cfg")
  case (Inl e)
  then have "main w cfg pp us mp cb cs dry = (initial_run, Raised e)"
    by (simp add: main_def)
  then show ?thesis by (rule config)
next
  case v: (Inr u)
  let ?bs = "effective_batch_size cb cfg"
  let ?st0 = "initial_run\<lparr>effects := [Print (Starting (firehose_name cfg) (aws_region cfg) pp
            ?bs (effective_batch_sleep cs cfg) dry)]\<rparr> :: 'raw run"
  show ?thesis
  proof (cases "?bs \<le> 0 \<or> 500 < ?bs")
    case True
    then have "main w cfg pp us mp cb cs dry = (initial_run, Raised (BadParameter
        ''batch_size must be between 1 and 500 for Firehose PutRecordBatch''))"
      using v by (simp add: main_def Let_def)
    then show ?thesis by (rule config)
  next
    case bs: False
    show ?thesis
    proof (cases "new_client (openalex_base_url cfg) (openalex_email cfg)")
      case (Inl e)
      then have "main w cfg pp us mp cb cs dry = (?st0, Raised e)"
        using v bs by (simp add: main_def Let_def)
      then show ?thesis by (rule client)
    next
      case (Inr oa)
      obtain events ending where ws:
        "works_stream oa pp us mp (effective_batch_sleep cs cfg) None (replies w) = (events, ending)"
        by (cases "works_stream oa pp us mp (effective_batch_sleep cs cfg) None (replies w)") blast
      obtain st r where ml: "main_loop w cfg ?bs dry ?st0 events = (st, r)"
        by (cases "main_loop w cfg ?bs dry ?st0 events") blast
      have "main w cfg pp us mp cb cs dry =
         (case r of
            Some e \<Rightarrow> (st, Raised e)
          | None \<Rightarrow>
              (case ending of
                 Done \<Rightarrow> finish w cfg dry st
               | Raised e \<Rightarrow> (st, Raised e)
               | Pending \<Rightarrow> (st, Pending)))"
        using v bs Inr ws ml by (simp add: main_def Let_def split: option.splits)
      then show ?thesis
        using bs ws ml run [of oa events ending st r] by simp
    qed
  qed
qed

lemma main_counters_nonneg:
  fixes w :: "'raw world"
  shows "0 \<le> total_sent (fst (main w cfg pp us mp cb cs dry))
   \<and> 0 \<le> total_failed (fst (main w cfg pp us mp cb cs dry))"
proof (cases rule: main_cases [of w cfg pp us mp cb cs dry])
  case (config e)
  then show ?thesis by (simp add: initial_run_def)
next
  case (client e)
  then show ?thesis by (simp add: initial_run_def)
next
  case (run oa events ending st r)
  have st: "0 \<le> total_sent st \<and> 0 \<le> total_failed st"
    using main_loop_mono [of _ w cfg "effective_batch_size cb cfg" dry events] run(4)
    by (metis fst_conv initial_run_def order_refl select_convs(1,2) surjective update_convs(5))
  have fin: "0 \<le> total_sent (fst (finish w cfg dry st))
      \<and> 0 \<le> total_failed (fst (finish w cfg dry st))"
    using finish_mono [of st w cfg dry] st by linarith
  show ?thesis
    using run(5) st fin by (simp split: option.splits status.splits)
qed

text \<open>
  Claim C1.  When the sink answers a batch with a response, \<open>flush\<close> outside dry-run
  mode returns \<open>total\<close> plus the length of the batch, whatever the response reports, and
  \<open>failed\<close> plus the response's \<open>FailedPutCount\<close> (0 when the count is missing or
  null).  Neither counter ever decreases: not in one flush, not along the loop of
  \<open>main\<close> from any state over any sequence of fetcher effects, not in the final flush;
  and a run ends with both counters at or above their initial zero.
\<close>

theorem flush_counters:
  assumes "put_record_batch w n s (map (entry_of w) (map model_dump envs)) = Inr resp"
  shows "fst (flush w s n envs False t f) =
           Inr (t + int (length envs), f + failed_put_count resp)
         \<and> failed_put_count resp = (case FailedPutCount resp of None \<Rightarrow> 0 | Some k \<Rightarrow> int k)
         \<and> t \<le> t + int (length envs)
         \<and> f \<le> f + failed_put_count resp
         \<and> total_sent st \<le> total_sent (fst (main_loop w cfg bs dry st es))
         \<and> total_failed st \<le> total_failed (fst (main_loop w cfg bs dry st es))
         \<and> total_sent st \<le> total_sent (fst (finish w cfg dry st))
         \<and> total_failed st \<le> total_failed (fst (finish w cfg dry st))
         \<and> 0 \<le> total_sent (fst (main w cfg pp us mp cb cs dry))
         \<and> 0 \<le> total_failed (fst (main w cfg pp us mp cb cs dry))"
proof -
  have a: "fst (flush w s n envs False t f) =
      Inr (t + int (length envs), f + failed_put_count resp)"
    by (simp add: flush_put_ok [OF assms])
  have b: "failed_put_count resp = (case FailedPutCount resp of None \<Rightarrow> 0 | Some k \<Rightarrow> int k)"
    by (simp add: failed_put_count_def)
  have c: "t \<le> t + int (length envs)" "f \<le> f + failed_put_count resp"
    using failed_put_count_nonneg [of resp] by simp_all
  show ?thesis
    using a b c main_loop_mono [of st w cfg bs dry es] finish_mono [of st w cfg dry]
      main_counters_nonneg [of w cfg pp us mp cb cs dry]
    by blast
qed

lemma sample_put_1:
  "put_record_batch sample_world 1 ''stream'' es =
     Inr \<lparr>FailedPutCount = Some 1,
          RequestResponses = [\<lparr>ErrorCode = Some ''X'', ErrorMessage = Some ''boom''\<rparr>]\<rparr>"
  by (simp add: sample_world_def)

theorem flush_counters_witness:
  "fst (flush sample_world ''stream'' 1 [sample_bare, sample_bare, sample_bare] False 5 2) =
     Inr (8, 3)"
  using flush_counters [OF sample_put_1, of "[sample_bare, sample_bare, sample_bare]" 5 2,
      THEN conjunct1]
  by (simp add: failed_put_count_def)

section \<open>The ceiling on a batch\<close>

lemma put_ok_failure_report: "list_all put_ok (failure_report resp k)"
  by (auto simp: failure_report_def put_ok_def Let_def list_all_iff)

lemma flush_effects_ok:
  assumes "1 \<le> length envs" and "length envs \<le> 500"
  shows "list_all put_ok (snd (flush w s n envs dry t f))"
proof (cases dry)
  case True
  then show ?thesis by (simp add: flush_dry put_ok_def)
next
  case False
  show ?thesis
  proof (cases "put_record_batch w n s (map (entry_of w) (map model_dump envs))")
    case (Inl e)
    then show ?thesis using False assms by (simp add: flush_put_raises put_ok_def)
  next
    case (Inr resp)
    then show ?thesis
      using False assms by (simp add: flush_put_ok put_ok_def put_ok_failure_report)
  qed
qed

lemma on_item_puts_ok:
  assumes "0 < bs" and "bs \<le> 500" and "int (length (batch st)) < bs"
    and "list_all put_ok (effects st)"
  shows "list_all put_ok (effects (fst (on_item w cfg bs dry st raw)))
         \<and> (snd (on_item w cfg bs dry st raw) = None \<longrightarrow>
              int (length (batch (fst (on_item w cfg bs dry st raw)))) < bs)"
proof (cases "model_validate w raw")
  case (Inl e)
  then show ?thesis using assms by (simp add: on_item_def)
next
  case (Inr wk)
  let ?st1 = "st\<lparr>batch := batch st @ [envelope_of cfg (now w (seen st)) (uuid4 w (seen st)) wk],
                 seen := seen st + 1\<rparr>"
  show ?thesis
  proof (cases "bs \<le> int (length (batch ?st1))")
    case False
    then show ?thesis using Inr assms by (simp add: on_item_def Let_def)
  next
    case True
    have len: "1 \<le> length (batch ?st1)" "length (batch ?st1) \<le> 500"
      using assms(2,3) by simp_all
    obtain r acts where fl: "flush w (firehose_name cfg) (puts_made ?st1) (batch ?st1) dry
        (total_sent ?st1) (total_failed ?st1) = (r, acts)"
      by (cases "flush w (firehose_name cfg) (puts_made ?st1) (batch ?st1) dry
        (total_sent ?st1) (total_failed ?st1)") blast
    have acts: "list_all put_ok acts"
      using flush_effects_ok [OF len, of w "firehose_name cfg" "puts_made ?st1" dry
          "total_sent ?st1" "total_failed ?st1"] fl by simp
    show ?thesis
    proof (cases r)
      case (Inl e)
      then show ?thesis using Inr True fl acts assms(4) by (simp add: on_item_def Let_def)
    next
      case r: (Inr tf)
      obtain t f where tf: "tf = (t, f)" by (cases tf) blast
      show ?thesis
        using Inr True fl acts assms(1,4) r tf by (simp add: on_item_def Let_def)
    qed
  qed
qed

lemma main_loop_puts_ok:
  "0 < bs \<Longrightarrow> bs \<le> 500 \<Longrightarrow> int (length (batch st)) < bs \<Longrightarrow> list_all put_ok (effects st) \<Longrightarrow>
         list_all put_ok (effects (fst (main_loop w cfg bs dry st es)))
         \<and> (snd (main_loop w cfg bs dry st es) = None \<longrightarrow>
              int (length (batch (fst (main_loop w cfg bs dry st es)))) < bs)"
proof (induction w cfg bs dry st es rule: main_loop.induct)
  case (1 w cfg bs dry st)
  then show ?case by simp
next
  case (2 w cfg bs dry st raw es)
  obtain st' r where oi: "on_item w cfg bs dry st raw = (st', r)"
    by (cases "on_item w cfg bs dry st raw") blast
  have ok: "list_all put_ok (effects st') \<and> (r = None \<longrightarrow> int (length (batch st')) < bs)"
    using on_item_puts_ok [OF "2.prems", of w cfg dry raw] oi by simp
  show ?case
  proof (cases r)
    case None
    then show ?thesis using "2.IH" "2.prems"(1,2) oi ok by fastforce
  next
    case (Some e)
    then show ?thesis using oi ok by simp
  qed
next
  case (3 w cfg bs dry st u ps es)
  then show ?case by (simp add: put_ok_def)
next
  case (4 w cfg bs dry st d es)
  then show ?case by (simp add: put_ok_def)
qed

lemma finish_puts_ok:
  assumes "length (batch st) \<le> 500" and "list_all put_ok (effects st)"
  shows "list_all put_ok (effects (fst (finish w cfg dry st)))"
proof (cases "batch st = []")
  case True
  then show ?thesis using assms by (simp add: finish_def put_ok_def)
next
  case False
  then have len: "1 \<le> length (batch st)"
    by (cases "batch st") simp_all
  obtain r acts where fl: "flush w (firehose_name cfg) (puts_made st) (batch st) dry
      (total_sent st) (total_failed st) = (r, acts)"
    by (cases "flush w (firehose_name cfg) (puts_made st) (batch st) dry
      (total_sent st) (total_failed st)") blast
  have acts: "list_all put_ok acts"
    using flush_effects_ok [OF len assms(1), of w "firehose_name cfg" "puts_made st" dry
        "total_sent st" "total_failed st"] fl by simp
  show ?thesis
  proof (cases r)
    case (Inl e)
    then show ?thesis using False fl acts assms(2) by (simp add: finish_def)
  next
    case r: (Inr tf)
    obtain t f where tf: "tf = (t, f)" by (cases tf) blast
    show ?thesis using False fl acts assms(2) r tf by (simp add: finish_def put_ok_def)
  qed
qed

lemma main_puts_ok:
  fixes w :: "'raw world"
  shows "list_all put_ok (effects (fst (main w cfg pp us mp cb cs dry)))"
proof (cases rule: main_cases [of w cfg pp us mp cb cs dry])
  case (config e)
  then show ?thesis by (simp add: initial_run_def)
next
  case (client e)
  then show ?thesis by (simp add: initial_run_def put_ok_def)
next
  case (run oa events ending st r)
  let ?bs = "effective_batch_size cb cfg"
  let ?st0 = "initial_run\<lparr>effects := [Print (Starting (firehose_name cfg) (aws_region cfg) pp
            ?bs (effective_batch_sleep cs cfg) dry)]\<rparr> :: 'raw run"
  have b0: "int (length (batch ?st0)) < ?bs"
    using run(1) by (simp add: initial_run_def)
  have l0: "list_all put_ok (effects ?st0)"
    by (simp add: put_ok_def)
  have inv: "list_all put_ok (effects st) \<and> (r = None \<longrightarrow> int (length (batch st)) < ?bs)"
    using main_loop_puts_ok [OF run(1,2) b0 l0, of w cfg dry events] run(4) by simp
  show ?thesis
  proof (cases r)
    case (Some e)
    then show ?thesis using run(5) inv by simp
  next
    case None
    then have "length (batch st) \<le> 500"
      using inv run(2) by linarith
    then have "list_all put_ok (effects (fst (finish w cfg dry st)))"
      using finish_puts_ok inv by blast
    then show ?thesis
      using None run(5) inv by (simp split: status.splits)
  qed
qed

text \<open>
  Claim C2, as amended.  \<open>put_records\<close> has no check of its own: for a batch of any
  length it makes one call of the client with one entry for each record, none dropped,
  and returns what the client returns.  The ceiling is kept by \<open>main\<close>.  The effective
  batch size is the argument \<open>batch_size\<close> when it is given and is not zero, and the
  batch size of the settings otherwise.  When the effective batch size is outside 1 to
  500, \<open>main\<close> raises before anything else happens, with no request, no call of the
  client and no line printed: the error of the settings when they are invalid, and
  else \<open>BadParameter\<close> with the message that names the bounds.  In every run, dry or
  not, every call of the client carries from 1 to 500 entries.
\<close>

theorem put_records_forwards_all:
  "put_records w s n recs =
     (put_record_batch w n s (map (entry_of w) recs), [Put s (map (entry_of w) recs)])
   \<and> length (map (entry_of w) recs) = length recs
   \<and> effective_batch_size cb cfg =
       (case cb of None \<Rightarrow> batch_size cfg | Some k \<Rightarrow> if k = 0 then batch_size cfg else k)
   \<and> (effective_batch_size cb cfg < 1 \<or> 500 < effective_batch_size cb cfg \<longrightarrow>
        main w cfg pp us mp cb cs dry =
          (initial_run,
           Raised (case validate cfg of
                     Inl e \<Rightarrow> e
                   | Inr _ \<Rightarrow> BadParameter
                       ''batch_size must be between 1 and 500 for Firehose PutRecordBatch'')))
   \<and> effects (initial_run :: 'raw run) = []
   \<and> list_all put_ok (effects (fst (main w cfg pp us mp cb cs dry)))"
proof -
  have sink: "put_records w s n recs =
      (put_record_batch w n s (map (entry_of w) recs), [Put s (map (entry_of w) recs)])"
    by (simp add: put_records_def Let_def)
  have eff: "effective_batch_size cb cfg =
      (case cb of None \<Rightarrow> batch_size cfg | Some k \<Rightarrow> if k = 0 then batch_size cfg else k)"
    by (simp add: effective_batch_size_def truthy_int_def split: option.splits)
  have refuse: "main w cfg pp us mp cb cs dry =
      (initial_run,
       Raised (case validate cfg of
                 Inl e \<Rightarrow> e
               | Inr _ \<Rightarrow> BadParameter
                   ''batch_size must be between 1 and 500 for Firehose PutRecordBatch''))"
    if "effective_batch_size cb cfg < 1 \<or> 500 < effective_batch_size cb cfg"
  proof (cases "validate cfg")
    case (Inl e)
    then show ?thesis by (simp add: main_def)
  next
    case (Inr u)
    have "effective_batch_size cb cfg \<le> 0 \<or> 500 < effective_batch_size cb cfg"
      using that by linarith
    then show ?thesis using Inr by (simp add: main_def Let_def)
  qed
  have none: "effects (initial_run :: 'raw run) = []"
    by (simp add: initial_run_def)
  show ?thesis
    using sink eff refuse none main_puts_ok [of w cfg pp us mp cb cs dry] by simp
qed

text \<open>
  Claim C2, as stated, has \<open>put_records\<close> refuse a batch of more than 500 records.  On
  501 records it calls the client with 501 entries and returns the client's response.
\<close>

theorem put_records_oversized_counterexample:
  "put_records sample_world ''stream'' 0 (replicate 501 []) =
     (Inr \<lparr>FailedPutCount = Some 0, RequestResponses = []\<rparr>,
      [Put ''stream'' (replicate 501 (''{}'' @ [CHR 0x0A]))])
   \<and> length (replicate 501 (''{}'' @ [CHR 0x0A])) = 501"
  by (simp add: put_records_def sample_world_def entry_of_def)

lemma validate_sample_cfg: "validate sample_cfg = Inr ()"
  by (simp add: validate_def sample_cfg_def)

theorem put_records_forwards_all_witness:
  "effective_batch_size (Some 501) sample_cfg = 501
   \<and> main sample_world sample_cfg 2 None None (Some 501) None False =
       (initial_run,
        Raised (BadParameter ''batch_size must be between 1 and 500 for Firehose PutRecordBatch''))
   \<and> effective_batch_size None (sample_cfg\<lparr>batch_size := 0\<rparr>) = 0
   \<and> main sample_world (sample_cfg\<lparr>batch_size := 0\<rparr>) 2 None None None None False =
       (initial_run,
        Raised (BadParameter ''batch_size must be between 1 and 500 for Firehose PutRecordBatch''))
   \<and> effective_batch_size (Some 2) sample_cfg = 2
   \<and> list_all put_ok (effects (fst (main sample_world sample_cfg 2 None None (Some 2) None False)))
   \<and> put_records sample_world ''stream'' 0 [[], []] =
       (Inr \<lparr>FailedPutCount = Some 0, RequestResponses = []\<rparr>,
        [Put ''stream'' [''{}'' @ [CHR 0x0A], ''{}'' @ [CHR 0x0A]]])"
proof -
  have v0: "validate (sample_cfg\<lparr>batch_size := 0\<rparr>) = Inr ()"
    by (simp add: validate_def sample_cfg_def)
  have b0: "batch_size (sample_cfg\<lparr>batch_size := 0\<rparr>) = 0"
    by simp
  note big = put_records_forwards_all [of sample_world "''stream''" 0 "[[], []]"
      "Some 501" sample_cfg 2 None None None False]
  note zero = put_records_forwards_all [of sample_world "''stream''" 0 "[[], []]"
      None "sample_cfg\<lparr>batch_size := 0\<rparr>" 2 None None None False]
  note two = put_records_forwards_all [of sample_world "''stream''" 0 "[[], []]"
      "Some 2" sample_cfg 2 None None None False]
  have e501: "effective_batch_size (Some 501) sample_cfg = 501"
    using big [THEN conjunct2, THEN conjunct2, THEN conjunct1] by simp
  have "effective_batch_size (Some 501) sample_cfg < 1
      \<or> 500 < effective_batch_size (Some 501) sample_cfg"
    by (simp only: e501) simp
  then have r501: "main sample_world sample_cfg 2 None None (Some 501) None False =
       (initial_run,
        Raised (BadParameter ''batch_size must be between 1 and 500 for Firehose PutRecordBatch''))"
    using big [THEN conjunct2, THEN conjunct2, THEN conjunct2, THEN conjunct1]
    by (simp add: validate_sample_cfg)
  have e0: "effective_batch_size None (sample_cfg\<lparr>batch_size := 0\<rparr>) = 0"
    using zero [THEN conjunct2, THEN conjunct2, THEN conjunct1] by (simp only: option.case b0)
  have "effective_batch_size None (sample_cfg\<lparr>batch_size := 0\<rparr>) < 1
      \<or> 500 < effective_batch_size None (sample_cfg\<lparr>batch_size := 0\<rparr>)"
    by (simp only: e0) simp
  then have r0: "main sample_world (sample_cfg\<lparr>batch_size := 0\<rparr>) 2 None None None None False =
       (initial_run,
        Raised (BadParameter ''batch_size must be between 1 and 500 for Firehose PutRecordBatch''))"
    using zero [THEN conjunct2, THEN conjunct2, THEN conjunct2, THEN conjunct1]
    by (simp add: v0)
  have e2: "effective_batch_size (Some 2) sample_cfg = 2"
    using two [THEN conjunct2, THEN conjunct2, THEN conjunct1] by simp
  have ok: "list_all put_ok
      (effects (fst (main sample_world sample_cfg 2 None None (Some 2) None False)))"
    by (rule two [THEN conjunct2, THEN conjunct2, THEN conjunct2, THEN conjunct2,
          THEN conjunct2])
  have sink: "put_records sample_world ''stream'' 0 [[], []] =
       (Inr \<lparr>FailedPutCount = Some 0, RequestResponses = []\<rparr>,
        [Put ''stream'' [''{}'' @ [CHR 0x0A], ''{}'' @ [CHR 0x0A]]])"
    using two [THEN conjunct1] by (simp add: sample_world_def entry_of_def)
  show ?thesis
    using e501 r501 e0 r0 e2 ok sink by (simp only: simp_thms)
qed

section \<open>Dry runs\<close>

lemma nets_append: "nets (xs @ ys) = nets xs @ nets ys"
  by (simp add: nets_def)

lemma put_sizes_append: "put_sizes (xs @ ys) = put_sizes xs @ put_sizes ys"
  by (simp add: put_sizes_def)

lemma dry_notes_append: "dry_notes (xs @ ys) = dry_notes xs @ dry_notes ys"
  by (simp add: dry_notes_def)

lemma view_simps:
  "nets [] = ([] :: 'a event list)"
  "nets (Net ev # acts) = ev # nets acts"
  "nets (Put s entries # acts) = nets acts"
  "nets (Print l # acts) = nets acts"
  "put_sizes ([] :: 'a action list) = []"
  "put_sizes (Net ev # acts) = put_sizes acts"
  "put_sizes (Put s entries # acts) = length entries # put_sizes acts"
  "put_sizes (Print l # acts) = put_sizes acts"
  "dry_notes ([] :: 'a action list) = []"
  "dry_notes (Net ev # acts) = dry_notes acts"
  "dry_notes (Put s entries # acts) = dry_notes acts"
  "dry_notes (Print (DryRunNote k) # acts) = k # dry_notes acts"
  "dry_notes (Print (Starting a b c d e f) # acts) = dry_notes acts"
  "dry_notes (Print (SummaryTable i j) # acts) = dry_notes acts"
  "dry_notes (Print FailureWarning # acts) = dry_notes acts"
  by (simp_all add: nets_def put_sizes_def dry_notes_def)

lemma failure_report_views:
  "nets (failure_report resp k) = [] \<and> put_sizes (failure_report resp k) = []"
  by (auto simp: failure_report_def nets_def put_sizes_def Let_def)

lemma is_put_failure_report: "filter is_put (failure_report resp k) = []"
  by (auto simp: failure_report_def is_put_def Let_def filter_empty_conv)

lemma on_item_dry_state:
  assumes "dry_state st"
  shows "dry_state (fst (on_item w cfg bs True st raw))"
  using assms
  by (cases "model_validate w raw")
    (simp_all add: on_item_def Let_def flush_dry dry_state_def is_put_def)

lemma main_loop_dry_state:
  "dry_state st \<Longrightarrow> dry_state (fst (main_loop w cfg bs True st es))"
proof (induction es arbitrary: st)
  case Nil
  then show ?case by simp
next
  case (Cons ev es)
  show ?case
  proof (cases ev)
    case (Get u ps)
    have "dry_state (st\<lparr>effects := effects st @ [Net (Get u ps)]\<rparr>)"
      using Cons.prems by (simp add: dry_state_def is_put_def)
    then show ?thesis using Get Cons.IH by simp
  next
    case (Sleep d)
    have "dry_state (st\<lparr>effects := effects st @ [Net (Sleep d)]\<rparr>)"
      using Cons.prems by (simp add: dry_state_def is_put_def)
    then show ?thesis using Sleep Cons.IH by simp
  next
    case (Yield raw)
    obtain st' r where oi: "on_item w cfg bs True st raw = (st', r)"
      by (cases "on_item w cfg bs True st raw") blast
    have "dry_state st'"
      using on_item_dry_state [OF Cons.prems, of w cfg bs raw] oi by simp
    then show ?thesis
      using Yield oi Cons.IH [of st'] by (cases r) simp_all
  qed
qed

lemma finish_dry_state:
  assumes "dry_state st"
  shows "dry_state (fst (finish w cfg True st))"
  using assms by (simp add: finish_def flush_dry dry_state_def is_put_def)

lemma main_dry_state:
  fixes w :: "'raw world"
  shows "dry_state (fst (main w cfg pp us mp cb cs True))"
proof (cases rule: main_cases [of w cfg pp us mp cb cs True])
  case (config e)
  then show ?thesis by (simp add: initial_run_def dry_state_def)
next
  case (client e)
  then show ?thesis by (simp add: initial_run_def dry_state_def is_put_def)
next
  case (run oa events ending st r)
  let ?st0 = "initial_run\<lparr>effects := [Print (Starting (firehose_name cfg) (aws_region cfg) pp
      (effective_batch_size cb cfg) (effective_batch_sleep cs cfg) True)]\<rparr> :: 'raw run"
  have "dry_state ?st0"
    by (simp add: initial_run_def dry_state_def is_put_def)
  then have st: "dry_state st"
    using main_loop_dry_state [of ?st0 w cfg "effective_batch_size cb cfg" events] run(4) by simp
  then have "dry_state (fst (finish w cfg True st))"
    by (rule finish_dry_state)
  then show ?thesis
    using run(5) st by (simp split: option.splits status.splits)
qed

text \<open>A dry run and a normal run whose client never raises do the same work.\<close>

lemma flush_never_raises:
  assumes "never_raises w"
  obtains resp where
    "flush w s k envs False t f =
       (Inr (t + int (length envs), f + failed_put_count resp),
        Put s (map (entry_of w) (map model_dump envs))
          # failure_report resp (failed_put_count resp))"
proof -
  obtain resp where "put_record_batch w k s (map (entry_of w) (map model_dump envs)) = Inr resp"
    using assms unfolding never_raises_def by blast
  then show ?thesis
    using that flush_put_ok by blast
qed

lemma on_item_same_work:
  assumes "never_raises w" and "same_work d n"
  shows "same_work (fst (on_item w cfg bs True d raw)) (fst (on_item w cfg bs False n raw))
         \<and> snd (on_item w cfg bs True d raw) = snd (on_item w cfg bs False n raw)"
proof (cases "model_validate w raw")
  case (Inl e)
  then show ?thesis using assms(2) by (simp add: on_item_def)
next
  case (Inr wk)
  let ?env = "envelope_of cfg (now w (seen n)) (uuid4 w (seen n)) wk"
  let ?n1 = "n\<lparr>batch := batch n @ [?env], seen := seen n + 1\<rparr>"
  have eq: "batch d = batch n" "seen d = seen n" "nets (effects d) = nets (effects n)"
    "dry_notes (effects d) = put_sizes (effects n)"
    using assms(2) by (simp_all add: same_work_def)
  obtain resp where fl: "flush w (firehose_name cfg) (puts_made ?n1) (batch ?n1) False
      (total_sent ?n1) (total_failed ?n1) =
       (Inr (total_sent ?n1 + int (length (batch ?n1)), total_failed ?n1 + failed_put_count resp),
        Put (firehose_name cfg) (map (entry_of w) (map model_dump (batch ?n1)))
          # failure_report resp (failed_put_count resp))"
    using flush_never_raises [OF assms(1)] by blast
  have views: "nets [Put (firehose_name cfg) (map (entry_of w) (map model_dump (batch ?n1)))
        :: 'a action] = []"
    "put_sizes [Put (firehose_name cfg) (map (entry_of w) (map model_dump (batch ?n1)))
        :: 'a action] = [length (batch ?n1)]"
    "dry_notes [Print (DryRunNote (length (batch ?n1))) :: 'a action] = [length (batch ?n1)]"
    "nets [Print (DryRunNote (length (batch ?n1))) :: 'a action] = []"
    by (simp_all add: nets_def put_sizes_def dry_notes_def)
  show ?thesis
  proof (cases "bs \<le> int (length (batch ?n1))")
    case False
    then show ?thesis
      using Inr eq by (simp add: on_item_def Let_def same_work_def)
  next
    case True
    have d: "on_item w cfg bs True d raw =
        (d\<lparr>batch := [], seen := seen n + 1,
           effects := effects d @ [Print (DryRunNote (length (batch ?n1)))]\<rparr>, None)"
      using Inr eq True by (simp add: on_item_def Let_def flush_dry)
    have n: "on_item w cfg bs False n raw =
        (n\<lparr>batch := [], seen := seen n + 1,
           total_sent := total_sent n + int (length (batch ?n1)),
           total_failed := total_failed n + failed_put_count resp,
           effects := effects n @
             Put (firehose_name cfg) (map (entry_of w) (map model_dump (batch ?n1)))
               # failure_report resp (failed_put_count resp)\<rparr>, None)"
      using Inr True fl by (simp add: on_item_def Let_def)
    have app: "\<And>x xs. effects n @ x # xs = effects n @ [x] @ xs"
      by simp
    show ?thesis
      unfolding d n
      using eq views failure_report_views [of resp "failed_put_count resp"]
      by (simp add: same_work_def nets_append put_sizes_append dry_notes_append app
          del: append_Cons)
  qed
qed

lemma main_loop_same_work:
  assumes "never_raises w"
  shows "same_work d n \<Longrightarrow>
         same_work (fst (main_loop w cfg bs True d es)) (fst (main_loop w cfg bs False n es))
         \<and> snd (main_loop w cfg bs True d es) = snd (main_loop w cfg bs False n es)"
proof (induction es arbitrary: d n)
  case Nil
  then show ?case by simp
next
  case (Cons ev es)
  show ?case
  proof (cases ev)
    case (Get u ps)
    have "same_work (d\<lparr>effects := effects d @ [Net (Get u ps)]\<rparr>)
        (n\<lparr>effects := effects n @ [Net (Get u ps)]\<rparr>)"
      using Cons.prems
      by (simp add: same_work_def nets_append put_sizes_append dry_notes_append)
        (simp add: nets_def put_sizes_def dry_notes_def)
    then show ?thesis using Get Cons.IH by simp
  next
    case (Sleep s)
    have "same_work (d\<lparr>effects := effects d @ [Net (Sleep s)]\<rparr>)
        (n\<lparr>effects := effects n @ [Net (Sleep s)]\<rparr>)"
      using Cons.prems
      by (simp add: same_work_def nets_append put_sizes_append dry_notes_append)
        (simp add: nets_def put_sizes_def dry_notes_def)
    then show ?thesis using Sleep Cons.IH by simp
  next
    case (Yield raw)
    obtain d' r where od: "on_item w cfg bs True d raw = (d', r)"
      by (cases "on_item w cfg bs True d raw") blast
    obtain n' r' where on: "on_item w cfg bs False n raw = (n', r')"
      by (cases "on_item w cfg bs False n raw") blast
    have sw: "same_work d' n'" and rr: "r = r'"
      using on_item_same_work [OF assms Cons.prems, of cfg bs raw] od on by simp_all
    show ?thesis
      using Yield od on sw rr Cons.IH [OF sw] by (cases r') simp_all
  qed
qed

lemma finish_same_work:
  assumes "never_raises w" and "same_work d n"
  shows "same_work (fst (finish w cfg True d)) (fst (finish w cfg False n))
         \<and> snd (finish w cfg True d) = snd (finish w cfg False n)"
proof (cases "batch n = []")
  case True
  from True show ?thesis
    using assms(2)
    by (simp add: finish_def same_work_def nets_append put_sizes_append dry_notes_append
        view_simps)
next
  case False
  have eq: "batch d = batch n" "seen d = seen n" "nets (effects d) = nets (effects n)"
    "dry_notes (effects d) = put_sizes (effects n)"
    using assms(2) by (simp_all add: same_work_def)
  obtain resp where fl: "flush w (firehose_name cfg) (puts_made n) (batch n) False
      (total_sent n) (total_failed n) =
       (Inr (total_sent n + int (length (batch n)), total_failed n + failed_put_count resp),
        Put (firehose_name cfg) (map (entry_of w) (map model_dump (batch n)))
          # failure_report resp (failed_put_count resp))"
    using flush_never_raises [OF assms(1)] by blast
  have views: "nets [Put (firehose_name cfg) (map (entry_of w) (map model_dump (batch n)))
        :: 'a action] = []"
    "put_sizes [Put (firehose_name cfg) (map (entry_of w) (map model_dump (batch n)))
        :: 'a action] = [length (batch n)]"
    "dry_notes [Print (DryRunNote (length (batch n))) :: 'a action] = [length (batch n)]"
    "nets [Print (DryRunNote (length (batch n))) :: 'a action] = []"
    "\<And>l. nets [Print l :: 'a action] = []"
    "\<And>a b. dry_notes [Print (SummaryTable a b) :: 'a action] = []"
    "dry_notes [Print FailureWarning :: 'a action] = []"
    "\<And>l. put_sizes [Print l :: 'a action] = []"
    by (simp_all add: nets_def put_sizes_def dry_notes_def)
  have d: "finish w cfg True d =
      (d\<lparr>effects := effects d @ [Print (DryRunNote (length (batch n)))]
            @ [Print (SummaryTable (total_sent d) (total_failed d))]
            @ (if total_failed d \<noteq> 0 then [Print FailureWarning] else [])\<rparr>, Done)"
    using False eq by (simp add: finish_def flush_dry)
  have n: "finish w cfg False n =
      (n\<lparr>total_sent := total_sent n + int (length (batch n)),
         total_failed := total_failed n + failed_put_count resp,
         effects := effects n
            @ [Put (firehose_name cfg) (map (entry_of w) (map model_dump (batch n)))]
            @ failure_report resp (failed_put_count resp)
            @ [Print (SummaryTable (total_sent n + int (length (batch n)))
                 (total_failed n + failed_put_count resp))]
            @ (if total_failed n + failed_put_count resp \<noteq> 0 then [Print FailureWarning]
               else [])\<rparr>, Done)"
    using False fl by (simp add: finish_def)
  show ?thesis
    unfolding d n
    using eq
    by (simp add: same_work_def nets_append put_sizes_append dry_notes_append view_simps
        failure_report_views)
qed

lemma main_same_work:
  fixes w :: "'raw world"
  assumes "never_raises w"
  shows "same_work (fst (main w cfg pp us mp cb cs True)) (fst (main w cfg pp us mp cb cs False))
         \<and> snd (main w cfg pp us mp cb cs True) = snd (main w cfg pp us mp cb cs False)"
proof (cases "validate cfg")
  case (Inl e)
  then show ?thesis
    by (simp add: main_def same_work_def initial_run_def view_simps)
next
  case v: (Inr u)
  let ?bs = "effective_batch_size cb cfg"
  let ?sl = "effective_batch_sleep cs cfg"
  let ?d0 = "initial_run\<lparr>effects := [Print (Starting (firehose_name cfg) (aws_region cfg) pp
      ?bs ?sl True)]\<rparr> :: 'raw run"
  let ?n0 = "initial_run\<lparr>effects := [Print (Starting (firehose_name cfg) (aws_region cfg) pp
      ?bs ?sl False)]\<rparr> :: 'raw run"
  have s0: "same_work ?d0 ?n0"
    by (simp add: same_work_def initial_run_def nets_def put_sizes_def dry_notes_def)
  show ?thesis
  proof (cases "?bs \<le> 0 \<or> 500 < ?bs")
    case True
    then show ?thesis
      using v by (simp add: main_def Let_def same_work_def initial_run_def view_simps)
  next
    case bs: False
    show ?thesis
    proof (cases "new_client (openalex_base_url cfg) (openalex_email cfg)")
      case (Inl e)
      then show ?thesis
        using v bs s0 by (simp add: main_def Let_def)
    next
      case (Inr oa)
      obtain events ending where ws:
        "works_stream oa pp us mp ?sl None (replies w) = (events, ending)"
        by (cases "works_stream oa pp us mp ?sl None (replies w)") blast
      obtain d r where md: "main_loop w cfg ?bs True ?d0 events = (d, r)"
        by (cases "main_loop w cfg ?bs True ?d0 events") blast
      obtain n r' where mn: "main_loop w cfg ?bs False ?n0 events = (n, r')"
        by (cases "main_loop w cfg ?bs False ?n0 events") blast
      have sw: "same_work d n" and rr: "r = r'"
        using main_loop_same_work [OF assms s0, of cfg ?bs events] md mn by simp_all
      have fin: "same_work (fst (finish w cfg True d)) (fst (finish w cfg False n))
          \<and> snd (finish w cfg True d) = snd (finish w cfg False n)"
        by (rule finish_same_work [OF assms sw])
      show ?thesis
        using v bs Inr ws md mn sw rr fin
        by (simp add: main_def Let_def split: option.splits status.splits)
    qed
  qed
qed

text \<open>
  Claim C6.  In dry-run mode, for every world, settings and command line, a run never
  calls the sink's client and ends with \<open>total_sent = 0\<close> and \<open>total_failed = 0\<close>.
  Against the normal run in the same world, when the client raises no exception, the
  dry run ends the same way, its fetcher makes the same requests and sleeps, as many
  items are taken and normalized, the same batch is left, and the sizes the dry run
  announces are the sizes of the batches the normal run delivers.
\<close>

theorem dry_run_never_delivers:
  "filter is_put (effects (fst (main w cfg pp us mp cb cs True))) = []
   \<and> total_sent (fst (main w cfg pp us mp cb cs True)) = 0
   \<and> total_failed (fst (main w cfg pp us mp cb cs True)) = 0
   \<and> (never_raises w \<longrightarrow>
        snd (main w cfg pp us mp cb cs True) = snd (main w cfg pp us mp cb cs False)
        \<and> nets (effects (fst (main w cfg pp us mp cb cs True))) =
            nets (effects (fst (main w cfg pp us mp cb cs False)))
        \<and> seen (fst (main w cfg pp us mp cb cs True)) =
            seen (fst (main w cfg pp us mp cb cs False))
        \<and> batch (fst (main w cfg pp us mp cb cs True)) =
            batch (fst (main w cfg pp us mp cb cs False))
        \<and> dry_notes (effects (fst (main w cfg pp us mp cb cs True))) =
            put_sizes (effects (fst (main w cfg pp us mp cb cs False))))"
  using main_dry_state [of w cfg pp us mp cb cs] main_same_work [of w cfg pp us mp cb cs]
  by (simp add: dry_state_def same_work_def)

lemma never_raises_sample_world5: "never_raises sample_world5"
  by (simp add: never_raises_def sample_world5_def sample_world_def)

lemma dry_run_sample:
  "dry_notes (effects (fst (main sample_world5 sample_cfg 2 None None (Some 2) None True)))
     = [2, 2, 1]
   \<and> seen (fst (main sample_world5 sample_cfg 2 None None (Some 2) None True)) = 5
   \<and> snd (main sample_world5 sample_cfg 2 None None (Some 2) None True) = Done"
  by code_simp

theorem dry_run_never_delivers_witness:
  "never_raises sample_world5
   \<and> filter is_put (effects (fst (main sample_world5 sample_cfg 2 None None (Some 2) None True)))
       = []
   \<and> total_sent (fst (main sample_world5 sample_cfg 2 None None (Some 2) None True)) = 0
   \<and> total_failed (fst (main sample_world5 sample_cfg 2 None None (Some 2) None True)) = 0
   \<and> seen (fst (main sample_world5 sample_cfg 2 None None (Some 2) None False)) = 5
   \<and> put_sizes (effects (fst (main sample_world5 sample_cfg 2 None None (Some 2) None False)))
       = [2, 2, 1]
   \<and> snd (main sample_world5 sample_cfg 2 None None (Some 2) None False) = Done"
proof -
  note th = dry_run_never_delivers [of sample_world5 sample_cfg 2 None None "Some 2" None]
  have a: "filter is_put
      (effects (fst (main sample_world5 sample_cfg 2 None None (Some 2) None True))) = []"
    "total_sent (fst (main sample_world5 sample_cfg 2 None None (Some 2) None True)) = 0"
    "total_failed (fst (main sample_world5 sample_cfg 2 None None (Some 2) None True)) = 0"
    using th by blast+
  have b: "snd (main sample_world5 sample_cfg 2 None None (Some 2) None True) =
        snd (main sample_world5 sample_cfg 2 None None (Some 2) None False)"
    "seen (fst (main sample_world5 sample_cfg 2 None None (Some 2) None True)) =
        seen (fst (main sample_world5 sample_cfg 2 None None (Some 2) None False))"
    "dry_notes (effects (fst (main sample_world5 sample_cfg 2 None None (Some 2) None True))) =
        put_sizes (effects (fst (main sample_world5 sample_cfg 2 None None (Some 2) None False)))"
    using th never_raises_sample_world5 by blast+
  show ?thesis
    using a b dry_run_sample never_raises_sample_world5 by simp
qed

section \<open>Configuration errors\<close>

lemma effective_batch_size_zero: "effective_batch_size (Some 0) cfg = batch_size cfg"
  by (simp add: effective_batch_size_def truthy_int_def)

lemma effective_batch_size_explicit:
  "k \<noteq> 0 \<Longrightarrow> effective_batch_size (Some k) cfg = k"
  by (simp add: effective_batch_size_def truthy_int_def)

lemma config_errors_fail_fast:
  fixes w :: "'raw world"
  shows "(openalex_email cfg = [] \<longrightarrow>
      main w cfg pp us mp cb cs dry =
        (initial_run,
         Raised (ValueError ''OPENALEX_EMAIL is required for polite use of the OpenAlex API.'')))
   \<and> (openalex_email cfg \<noteq> [] \<and> aws_region cfg = [] \<longrightarrow>
      main w cfg pp us mp cb cs dry = (initial_run, Raised (ValueError ''AWS_REGION is required.'')))
   \<and> (openalex_email cfg \<noteq> [] \<and> aws_region cfg \<noteq> [] \<and> firehose_name cfg = [] \<longrightarrow>
      main w cfg pp us mp cb cs dry =
        (initial_run, Raised (ValueError ''FIREHOSE_NAME is required.'')))
   \<and> (validate cfg = Inr ()
        \<and> (effective_batch_size cb cfg \<le> 0 \<or> 500 < effective_batch_size cb cfg) \<longrightarrow>
      main w cfg pp us mp cb cs dry =
        (initial_run,
         Raised (BadParameter
           ''batch_size must be between 1 and 500 for Firehose PutRecordBatch'')))
   \<and> effects (initial_run :: 'raw run) = []"
  by (simp add: main_def validate_def Let_def initial_run_def)

text \<open>
  Claim C7 at \<open>--batch-size 0\<close>.  With valid settings whose batch size is 50, the
  explicit argument 0 is not refused: \<open>batch_size or cfg.batch_size\<close> takes the
  settings' 50, the bounds check passes, and the run goes on to the fetcher and ends
  normally.
\<close>

theorem explicit_zero_batch_size_accepted:
  "validate sample_cfg = Inr ()
   \<and> effective_batch_size (Some 0) sample_cfg = 50
   \<and> snd (main sample_world sample_cfg 2 None None (Some 0) None True) = Done
   \<and> take 1 (effects (fst (main sample_world sample_cfg 2 None None (Some 0) None True))) =
       [Print (Starting ''stream'' ''us-east-1'' 2 50 0 True)]"
  by code_simp

end
